theory Spec2Isabelle
  imports Complex_Main
begin

section \<open>Single-precision values\<close>

text \<open>
  The source computes on C \<^verbatim>\<open>float\<close>, the IEEE 754 binary32 format. A value is a real
  number (\<open>Fin 0\<close> is \<^verbatim>\<open>+0.0f\<close>), the negative zero, one of the two infinities, or NaN.
  The operations \<^verbatim>\<open>+\<close>, \<^verbatim>\<open>-\<close>, \<^verbatim>\<open>*\<close>, \<^verbatim>\<open>/\<close> and \<^verbatim>\<open>sqrt\<close> compute the exact result
  and round it to the nearest binary32 value, ties to even, once per operation (no fused
  multiply-add); a result whose rounded magnitude reaches \<open>2 ^ 128\<close> becomes infinite, and
  subnormal results are kept.
\<close>

datatype float = Fin real | NZero | PInf | NInf | NaN

fun valof :: "float \<Rightarrow> real" where
  "valof (Fin a) = a"
| "valof x = 0"

fun is_nan :: "float \<Rightarrow> bool" where
  "is_nan NaN = True"
| "is_nan x = False"

fun is_inf :: "float \<Rightarrow> bool" where
  "is_inf PInf = True"
| "is_inf NInf = True"
| "is_inf x = False"

fun sign_bit :: "float \<Rightarrow> bool" where
  "sign_bit (Fin a) = (a < 0)"
| "sign_bit NZero = True"
| "sign_bit NInf = True"
| "sign_bit x = False"

definition zero_of :: "bool \<Rightarrow> float" where
  "zero_of s = (if s then NZero else Fin 0)"

definition inf_of :: "bool \<Rightarrow> float" where
  "inf_of s = (if s then NInf else PInf)"

text \<open>Rounding to the nearest integer, ties to the even one.\<close>

definition round_even :: "real \<Rightarrow> int" where
  "round_even x =
     (if x - of_int \<lfloor>x\<rfloor> < 1 / 2 then \<lfloor>x\<rfloor>
      else if 1 / 2 < x - of_int \<lfloor>x\<rfloor> then \<lfloor>x\<rfloor> + 1
      else if even \<lfloor>x\<rfloor> then \<lfloor>x\<rfloor> else \<lfloor>x\<rfloor> + 1)"

text \<open>
  The binary32 values around \<open>r\<close> are the multiples of \<open>2\<close> to the power \<open>ulp_exp r\<close>:
  24 significant bits, and the fixed spacing of the subnormal numbers below \<open>2 powi (- 126)\<close>.
\<close>

definition ulp_exp :: "real \<Rightarrow> int" where
  "ulp_exp r = max \<lfloor>log 2 \<bar>r\<bar>\<rfloor> (- 126) - 23"

definition rnd :: "real \<Rightarrow> real" where
  "rnd r = (if r = 0 then 0 else of_int (round_even (r / 2 powi ulp_exp r)) * 2 powi ulp_exp r)"

text \<open>
  The binary32 result of an operation whose exact result is \<open>r\<close>; \<open>s\<close> is the sign of the
  zero that an exact result 0 gets.
\<close>

definition round32 :: "bool \<Rightarrow> real \<Rightarrow> float" where
  "round32 s r =
     (if r = 0 then zero_of s
      else if 2 ^ 128 \<le> \<bar>rnd r\<bar> then inf_of (r < 0)
      else if rnd r = 0 then zero_of (r < 0)
      else Fin (rnd r))"

text \<open>A decimal literal with the suffix \<^verbatim>\<open>f\<close>: \<^verbatim>\<open>0.0001f\<close> is \<open>f32 0.0001\<close>.\<close>

definition f32 :: "real \<Rightarrow> float" where
  "f32 r = round32 False r"

instantiation float :: uminus
begin

fun uminus_float :: "float \<Rightarrow> float" where
  "uminus_float (Fin a) = (if a = 0 then NZero else Fin (- a))"
| "uminus_float NZero = Fin 0"
| "uminus_float PInf = NInf"
| "uminus_float NInf = PInf"
| "uminus_float NaN = NaN"

instance ..

end

instantiation float :: plus
begin

definition plus_float :: "float \<Rightarrow> float \<Rightarrow> float" where
  "plus_float a b =
     (if is_nan a \<or> is_nan b then NaN
      else if is_inf a then (if is_inf b \<and> a \<noteq> b then NaN else a)
      else if is_inf b then b
      else round32 (sign_bit a \<and> sign_bit b) (valof a + valof b))"

instance ..

end

instantiation float :: minus
begin

definition minus_float :: "float \<Rightarrow> float \<Rightarrow> float" where
  "minus_float x y = x + (- y)"

instance ..

end

instantiation float :: times
begin

definition times_float :: "float \<Rightarrow> float \<Rightarrow> float" where
  "times_float a b =
     (if is_nan a \<or> is_nan b then NaN
      else if is_inf a \<or> is_inf b then
        (if (\<not> is_inf a \<and> valof a = 0) \<or> (\<not> is_inf b \<and> valof b = 0) then NaN
         else inf_of (sign_bit a \<noteq> sign_bit b))
      else round32 (sign_bit a \<noteq> sign_bit b) (valof a * valof b))"

instance ..

end

instantiation float :: inverse
begin

definition divide_float :: "float \<Rightarrow> float \<Rightarrow> float" where
  "divide_float a b =
     (if is_nan a \<or> is_nan b then NaN
      else if is_inf a then (if is_inf b then NaN else inf_of (sign_bit a \<noteq> sign_bit b))
      else if is_inf b then zero_of (sign_bit a \<noteq> sign_bit b)
      else if valof b = 0 then
        (if valof a = 0 then NaN else inf_of (sign_bit a \<noteq> sign_bit b))
      else round32 (sign_bit a \<noteq> sign_bit b) (valof a / valof b))"

definition inverse_float :: "float \<Rightarrow> float" where
  "inverse_float x = divide (Fin 1) x"

instance ..

end

text \<open>
  The comparison operators of C: every comparison with NaN is false, so \<open>\<le>\<close> and \<open><\<close> on
  \<^typ>\<open>float\<close> do not form an order, and the two zeros compare equal. \<open>a > b\<close> and \<open>a \<ge> b\<close>
  are \<open>b < a\<close> and \<open>b \<le> a\<close>.
\<close>

instantiation float :: ord
begin

definition less_eq_float :: "float \<Rightarrow> float \<Rightarrow> bool" where
  "less_eq_float a b \<longleftrightarrow>
     \<not> is_nan a \<and> \<not> is_nan b
     \<and> (a = NInf \<or> b = PInf \<or> (a \<noteq> PInf \<and> b \<noteq> NInf \<and> valof a \<le> valof b))"

definition less_float :: "float \<Rightarrow> float \<Rightarrow> bool" where
  "less_float a b \<longleftrightarrow>
     \<not> is_nan a \<and> \<not> is_nan b \<and> a \<noteq> PInf \<and> b \<noteq> NInf
     \<and> (a = NInf \<or> b = PInf \<or> valof a < valof b)"

instance ..

end

text \<open>The operator \<^verbatim>\<open>==\<close> on floats: NaN compares unequal to everything, itself included.\<close>

definition feq :: "float \<Rightarrow> float \<Rightarrow> bool" where
  "feq a b \<longleftrightarrow>
     \<not> is_nan a \<and> \<not> is_nan b
     \<and> (if is_inf a \<or> is_inf b then a = b else valof a = valof b)"

text \<open>\<^verbatim>\<open>sqrt\<close> on floats.\<close>

fun sqrt_f :: "float \<Rightarrow> float" where
  "sqrt_f (Fin a) = (if a < 0 then NaN else round32 False (sqrt a))"
| "sqrt_f NZero = NZero"
| "sqrt_f PInf = PInf"
| "sqrt_f NInf = NaN"
| "sqrt_f NaN = NaN"

text \<open>
  \<^verbatim>\<open>glm::min(x, y)\<close> is \<^verbatim>\<open>(y < x) ? y : x\<close> and \<^verbatim>\<open>glm::max(x, y)\<close> is \<^verbatim>\<open>(x < y) ? y : x\<close>.
  The unqualified \<^verbatim>\<open>min\<close> and \<^verbatim>\<open>max\<close> of the sphere test are the CUDA overloads for
  \<^verbatim>\<open>float\<close>, that is \<^verbatim>\<open>fminf\<close> and \<^verbatim>\<open>fmaxf\<close>: when one argument is NaN the other is returned.
  Neither library is part of the sources; other releases of them differ from these
  definitions at most when an argument is NaN.
\<close>

definition glm_min :: "float \<Rightarrow> float \<Rightarrow> float" where
  "glm_min x y = (if y < x then y else x)"

definition glm_max :: "float \<Rightarrow> float \<Rightarrow> float" where
  "glm_max x y = (if x < y then y else x)"

definition min_f :: "float \<Rightarrow> float \<Rightarrow> float" where
  "min_f a b = (if a = NaN then b else if b = NaN then a else if a < b then a else b)"

definition max_f :: "float \<Rightarrow> float \<Rightarrow> float" where
  "max_f a b = (if a = NaN then b else if b = NaN then a else if a < b then b else a)"

text \<open>\<^verbatim>\<open>powf(x, 2.0f)\<close>, the only use of \<^verbatim>\<open>powf\<close> in the source.\<close>

definition powf2 :: "float \<Rightarrow> float" where
  "powf2 x = x * x"

definition MIN_INTERSECT_DIST :: float where
  "MIN_INTERSECT_DIST = f32 0.0001"

definition MAX_INTERSECT_DIST :: float where
  "MAX_INTERSECT_DIST = Fin 10000"

section \<open>Vectors and matrices (glm)\<close>

datatype vec3 = vec3 (vx: float) (vy: float) (vz: float)

datatype vec4 = vec4 (wx: float) (wy: float) (wz: float) (ww: float)

text \<open>A \<^verbatim>\<open>glm::mat4\<close> is stored by columns: \<^verbatim>\<open>m[c]\<close> is column \<open>c\<close>.\<close>

datatype mat4 = mat4 (col0: vec4) (col1: vec4) (col2: vec4) (col3: vec4)

instantiation vec3 :: plus
begin

definition plus_vec3 :: "vec3 \<Rightarrow> vec3 \<Rightarrow> vec3" where
  "plus_vec3 a b = vec3 (vx a + vx b) (vy a + vy b) (vz a + vz b)"

instance ..

end

instantiation vec3 :: minus
begin

definition minus_vec3 :: "vec3 \<Rightarrow> vec3 \<Rightarrow> vec3" where
  "minus_vec3 a b = vec3 (vx a - vx b) (vy a - vy b) (vz a - vz b)"

instance ..

end

text \<open>\<^verbatim>\<open>s * v\<close> and \<^verbatim>\<open>v * s\<close> for a scalar \<open>s\<close>.\<close>

definition scale3 :: "float \<Rightarrow> vec3 \<Rightarrow> vec3" where
  "scale3 s v = vec3 (s * vx v) (s * vy v) (s * vz v)"

definition scale3r :: "vec3 \<Rightarrow> float \<Rightarrow> vec3" where
  "scale3r v s = vec3 (vx v * s) (vy v * s) (vz v * s)"

definition dot :: "vec3 \<Rightarrow> vec3 \<Rightarrow> float" where
  "dot a b = vx a * vx b + vy a * vy b + vz a * vz b"

definition cross :: "vec3 \<Rightarrow> vec3 \<Rightarrow> vec3" where
  "cross a b = vec3 (vy a * vz b - vy b * vz a)
                    (vz a * vx b - vz b * vx a)
                    (vx a * vy b - vx b * vy a)"

definition length_vec3 :: "vec3 \<Rightarrow> float" where
  "length_vec3 v = sqrt_f (dot v v)"

text \<open>\<^verbatim>\<open>glm::normalize(v)\<close> is \<^verbatim>\<open>v * inversesqrt(dot(v, v))\<close>.\<close>

definition inversesqrt :: "float \<Rightarrow> float" where
  "inversesqrt a = Fin 1 / sqrt_f a"

definition normalize_vec3 :: "vec3 \<Rightarrow> vec3" where
  "normalize_vec3 v = scale3r v (inversesqrt (dot v v))"

text \<open>\<^verbatim>\<open>glm::vec4(v, w)\<close> and the truncating \<^verbatim>\<open>glm::vec3(v4)\<close>.\<close>

definition vec4_of :: "vec3 \<Rightarrow> float \<Rightarrow> vec4" where
  "vec4_of v w = vec4 (vx v) (vy v) (vz v) w"

definition vec3_of :: "vec4 \<Rightarrow> vec3" where
  "vec3_of v = vec3 (wx v) (wy v) (wz v)"

text \<open>\<^verbatim>\<open>m * v\<close>: glm adds the four scaled columns as \<open>(c0 + c1) + (c2 + c3)\<close>.\<close>

definition mat_mul_vec :: "mat4 \<Rightarrow> vec4 \<Rightarrow> vec4" where
  "mat_mul_vec m v =
     vec4 ((wx (col0 m) * wx v + wx (col1 m) * wy v) + (wx (col2 m) * wz v + wx (col3 m) * ww v))
          ((wy (col0 m) * wx v + wy (col1 m) * wy v) + (wy (col2 m) * wz v + wy (col3 m) * ww v))
          ((wz (col0 m) * wx v + wz (col1 m) * wy v) + (wz (col2 m) * wz v + wz (col3 m) * ww v))
          ((ww (col0 m) * wx v + ww (col1 m) * wy v) + (ww (col2 m) * wz v + ww (col3 m) * ww v))"

text \<open>\<^verbatim>\<open>v[i]\<close> and \<^verbatim>\<open>v[i] = a\<close> for the indices 0, 1, 2 that the box loop uses.\<close>

definition vec3_nth :: "vec3 \<Rightarrow> nat \<Rightarrow> float" where
  "vec3_nth v i = (if i = 0 then vx v else if i = 1 then vy v else vz v)"

definition vec3_upd :: "vec3 \<Rightarrow> nat \<Rightarrow> float \<Rightarrow> vec3" where
  "vec3_upd v i a =
     (if i = 0 then vec3 a (vy v) (vz v)
      else if i = 1 then vec3 (vx v) a (vz v)
      else vec3 (vx v) (vy v) a)"

section \<open>Scene structures\<close>

text \<open>
  Of \<^verbatim>\<open>struct Ray\<close>, \<^verbatim>\<open>struct Geom\<close> and \<^verbatim>\<open>struct Tri\<close> the records keep the fields that
  the intersection tests read. The tests never read \<^verbatim>\<open>direction_inv\<close> and
  \<^verbatim>\<open>ray_dir_sign\<close> of a ray, the type, material and placement fields of a \<^verbatim>\<open>Geom\<close>, nor the
  shading normals, texture coordinates, \<^verbatim>\<open>S\<close> and \<^verbatim>\<open>mat_ID\<close> of a triangle.
\<close>

record Ray =
  origin :: vec3
  direction :: vec3

record Geom =
  transform :: mat4
  inverseTransform :: mat4
  invTranspose :: mat4

record Tri =
  p0 :: vec3
  p1 :: vec3
  p2 :: vec3
  plane_normal :: vec3

section \<open>The intersection tests of intersections.h\<close>

definition getPointOnRay :: "Ray \<Rightarrow> float \<Rightarrow> vec3" where
  "getPointOnRay r t = origin r + scale3 t (normalize_vec3 (direction r))"

definition multiplyMV :: "mat4 \<Rightarrow> vec4 \<Rightarrow> vec3" where
  "multiplyMV m v = vec3_of (mat_mul_vec m v)"

text \<open>
  Each test returns a \<^verbatim>\<open>float\<close> and may assign the by-reference parameter \<^verbatim>\<open>normal\<close>. The
  model takes the value of \<^verbatim>\<open>normal\<close> before the call and returns the pair of the returned
  \<^verbatim>\<open>float\<close> and the value of \<^verbatim>\<open>normal\<close> after the call.
\<close>

definition squareplaneIntersectionTest :: "Geom \<Rightarrow> Ray \<Rightarrow> vec3 \<Rightarrow> float \<times> vec3" where
  "squareplaneIntersectionTest squareplane r normal =
     (let q = \<lparr>origin = multiplyMV (inverseTransform squareplane) (vec4_of (origin r) (Fin 1)),
               direction = normalize_vec3
                 (multiplyMV (inverseTransform squareplane) (vec4_of (direction r) (Fin 0)))\<rparr>;
          t = dot (vec3 (Fin 0) (Fin 0) (Fin 1)) (vec3 (Fin 0.5) (Fin 0.5) (Fin 0) - origin q)
                / dot (vec3 (Fin 0) (Fin 0) (Fin 1)) (direction q);
          objspaceIntersection = getPointOnRay q t
      in if f32 0.0001 < t
            \<and> - f32 0.5001 \<le> vx objspaceIntersection \<and> vx objspaceIntersection \<le> f32 0.5001
            \<and> - f32 0.5001 \<le> vy objspaceIntersection \<and> vy objspaceIntersection \<le> f32 0.5001
         then
           (let intersectionPoint =
                  multiplyMV (transform squareplane) (vec4_of objspaceIntersection (Fin 1))
            in (length_vec3 (origin r - intersectionPoint),
                normalize_vec3 (multiplyMV (invTranspose squareplane)
                                  (vec4 (Fin 0) (Fin 0) (Fin 1) (Fin 0)))))
         else (MAX_INTERSECT_DIST, normal))"

text \<open>
  The box test. The locals \<^verbatim>\<open>tmin_n\<close>, \<^verbatim>\<open>tmax_n\<close> and \<^verbatim>\<open>n\<close> are default-constructed
  \<^verbatim>\<open>glm::vec3\<close>s. glm is not part of the sources, so the value of a default-constructed
  vector is the parameter \<open>dflt\<close> (glm before 0.9.9 fills it with zeros).
\<close>

record box_state =
  tmin :: float
  tmax :: float
  tmin_n :: vec3
  tmax_n :: vec3

definition box_body :: "vec3 \<Rightarrow> Ray \<Rightarrow> nat \<Rightarrow> box_state \<Rightarrow> box_state" where
  "box_body dflt q xyz s =
     (let qdxyz = vec3_nth (direction q) xyz;
          t1 = (Fin (- 0.5) - vec3_nth (origin q) xyz) / qdxyz;
          t2 = (Fin 0.5 - vec3_nth (origin q) xyz) / qdxyz;
          ta = glm_min t1 t2;
          tb = glm_max t1 t2;
          n = vec3_upd dflt xyz (if t2 < t1 then Fin 1 else Fin (- 1));
          s1 = (if Fin 0 < ta \<and> tmin s < ta then s\<lparr>tmin := ta, tmin_n := n\<rparr> else s)
      in if tb < tmax s1 then s1\<lparr>tmax := tb, tmax_n := n\<rparr> else s1)"

function box_loop :: "vec3 \<Rightarrow> Ray \<Rightarrow> nat \<Rightarrow> box_state \<Rightarrow> box_state" where
  "box_loop dflt q xyz s =
     (if xyz < 3 then box_loop dflt q (Suc xyz) (box_body dflt q xyz s) else s)"
  by pat_completeness auto
termination
  by (relation "measure (\<lambda>(dflt, q, xyz, s). 3 - xyz)") auto

declare box_loop.simps [simp del]

definition boxIntersectionTest :: "vec3 \<Rightarrow> Geom \<Rightarrow> Ray \<Rightarrow> vec3 \<Rightarrow> float \<times> vec3" where
  "boxIntersectionTest dflt box r normal =
     (let q = \<lparr>origin = multiplyMV (inverseTransform box) (vec4_of (origin r) (Fin 1)),
               direction = normalize_vec3
                 (multiplyMV (inverseTransform box) (vec4_of (direction r) (Fin 0)))\<rparr>;
          s = box_loop dflt q 0
                \<lparr>tmin = - f32 (10 ^ 38), tmax = f32 (10 ^ 38), tmin_n = dflt, tmax_n = dflt\<rparr>
      in if tmin s \<le> tmax s \<and> Fin 0 < tmax s then
           (let s' = (if tmin s \<le> Fin 0 then s\<lparr>tmin := tmax s, tmin_n := tmax_n s\<rparr> else s);
                intersectionPoint =
                  multiplyMV (transform box) (vec4_of (getPointOnRay q (tmin s')) (Fin 1))
            in (length_vec3 (origin r - intersectionPoint),
                normalize_vec3 (multiplyMV (invTranspose box) (vec4_of (tmin_n s') (Fin 0)))))
         else (MAX_INTERSECT_DIST, normal))"

definition sphereIntersectionTest :: "Geom \<Rightarrow> Ray \<Rightarrow> vec3 \<Rightarrow> float \<times> vec3" where
  "sphereIntersectionTest sphere r normal =
     (let radius = Fin 0.5;
          ro = multiplyMV (inverseTransform sphere) (vec4_of (origin r) (Fin 1));
          rd = normalize_vec3
                 (multiplyMV (inverseTransform sphere) (vec4_of (direction r) (Fin 0)));
          rt = \<lparr>origin = ro, direction = rd\<rparr>;
          vDotDirection = dot (origin rt) (direction rt);
          radicand = vDotDirection * vDotDirection - (dot (origin rt) (origin rt) - powf2 radius)
      in if radicand < Fin 0 then (MAX_INTERSECT_DIST, normal)
         else
           (let squareRoot = sqrt_f radicand;
                firstTerm = - vDotDirection;
                t1 = firstTerm + squareRoot;
                t2 = firstTerm - squareRoot
            in if t1 < Fin 0 \<and> t2 < Fin 0 then (MAX_INTERSECT_DIST, normal)
               else
                 (let t = (if Fin 0 < t1 \<and> Fin 0 < t2 then min_f t1 t2 else max_f t1 t2);
                      objspaceIntersection = getPointOnRay rt t;
                      intersectionPoint =
                        multiplyMV (transform sphere) (vec4_of objspaceIntersection (Fin 1))
                  in (length_vec3 (origin r - intersectionPoint),
                      normalize_vec3 (multiplyMV (invTranspose sphere)
                                        (vec4_of objspaceIntersection (Fin 0)))))))"

definition triIntersectionTest :: "Tri \<Rightarrow> Ray \<Rightarrow> vec3 \<Rightarrow> float \<times> vec3" where
  "triIntersectionTest tri r normal =
     (let t = dot (plane_normal tri) (p0 tri - origin r) / dot (plane_normal tri) (direction r)
      in if t < Fin 0 then (t, normal)
         else
           (let P = origin r + scale3 t (direction r);
                S = Fin 0.5 * length_vec3 (cross (p0 tri - p1 tri) (p0 tri - p2 tri));
                s1 = Fin 0.5 * length_vec3 (cross (P - p1 tri) (P - p2 tri)) / S;
                s2 = Fin 0.5 * length_vec3 (cross (P - p2 tri) (P - p0 tri)) / S;
                s3 = Fin 0.5 * length_vec3 (cross (P - p0 tri) (P - p1 tri)) / S;
                sum = s1 + s2 + s3
            in if Fin 0 \<le> s1 \<and> s1 \<le> Fin 1 \<and> Fin 0 \<le> s2 \<and> s2 \<le> Fin 1
                  \<and> Fin 0 \<le> s3 \<and> s3 \<le> Fin 1 \<and> feq sum (Fin 1)
               then (t, plane_normal tri)
               else (Fin (- 1), normal)))"

section \<open>The quantities the tests compute\<close>

text \<open>
  The intermediate values of the tests, named after the locals of the source, so that the
  theorems can speak about them.
\<close>

text \<open>The object-space ray: the first two statements of the sphere, box and plane tests.\<close>

definition toLocal :: "Geom \<Rightarrow> Ray \<Rightarrow> Ray" where
  "toLocal g r =
     \<lparr>origin = multiplyMV (inverseTransform g) (vec4_of (origin r) (Fin 1)),
      direction = normalize_vec3 (multiplyMV (inverseTransform g) (vec4_of (direction r) (Fin 0)))\<rparr>"

text \<open>
  What the tests return on a hit, from the object-space point \<open>p\<close> and the object-space
  normal \<open>nl\<close>: the distance from the world-space ray origin to the world-space point, and the
  normalised world-space normal.
\<close>

definition toWorld :: "Geom \<Rightarrow> Ray \<Rightarrow> vec3 \<Rightarrow> vec3 \<Rightarrow> float \<times> vec3" where
  "toWorld g r p nl =
     (length_vec3 (origin r - multiplyMV (transform g) (vec4_of p (Fin 1))),
      normalize_vec3 (multiplyMV (invTranspose g) (vec4_of nl (Fin 0))))"

subsection \<open>Sphere\<close>

definition sphere_radicand :: "Ray \<Rightarrow> float" where
  "sphere_radicand q =
     dot (origin q) (direction q) * dot (origin q) (direction q)
       - (dot (origin q) (origin q) - powf2 (Fin 0.5))"

definition sphere_t1 :: "Ray \<Rightarrow> float" where
  "sphere_t1 q = - dot (origin q) (direction q) + sqrt_f (sphere_radicand q)"

definition sphere_t2 :: "Ray \<Rightarrow> float" where
  "sphere_t2 q = - dot (origin q) (direction q) - sqrt_f (sphere_radicand q)"

subsection \<open>Box\<close>

definition box_init :: "vec3 \<Rightarrow> box_state" where
  "box_init dflt =
     \<lparr>tmin = - f32 (10 ^ 38), tmax = f32 (10 ^ 38), tmin_n = dflt, tmax_n = dflt\<rparr>"

text \<open>The running entry and exit parameters and their normals after the loop over the axes.\<close>

definition box_slabs :: "vec3 \<Rightarrow> Ray \<Rightarrow> box_state" where
  "box_slabs dflt q = box_loop dflt q 0 (box_init dflt)"

subsection \<open>Square plane\<close>

definition squareplane_t :: "Ray \<Rightarrow> float" where
  "squareplane_t q =
     dot (vec3 (Fin 0) (Fin 0) (Fin 1)) (vec3 (Fin 0.5) (Fin 0.5) (Fin 0) - origin q)
       / dot (vec3 (Fin 0) (Fin 0) (Fin 1)) (direction q)"

definition squareplane_point :: "Ray \<Rightarrow> vec3" where
  "squareplane_point q = getPointOnRay q (squareplane_t q)"

definition squareplane_accepts :: "Ray \<Rightarrow> bool" where
  "squareplane_accepts q \<longleftrightarrow>
     f32 0.0001 < squareplane_t q
     \<and> - f32 0.5001 \<le> vx (squareplane_point q) \<and> vx (squareplane_point q) \<le> f32 0.5001
     \<and> - f32 0.5001 \<le> vy (squareplane_point q) \<and> vy (squareplane_point q) \<le> f32 0.5001"

subsection \<open>Triangle\<close>

definition tri_t :: "Tri \<Rightarrow> Ray \<Rightarrow> float" where
  "tri_t tri r =
     dot (plane_normal tri) (p0 tri - origin r) / dot (plane_normal tri) (direction r)"

definition tri_point :: "Tri \<Rightarrow> Ray \<Rightarrow> vec3" where
  "tri_point tri r = origin r + scale3 (tri_t tri r) (direction r)"

text \<open>The total area \<^verbatim>\<open>S\<close> and the three weights \<^verbatim>\<open>s1\<close>, \<^verbatim>\<open>s2\<close>, \<^verbatim>\<open>s3\<close>.\<close>

definition tri_area :: "Tri \<Rightarrow> float" where
  "tri_area tri = Fin 0.5 * length_vec3 (cross (p0 tri - p1 tri) (p0 tri - p2 tri))"

definition tri_s1 :: "Tri \<Rightarrow> Ray \<Rightarrow> float" where
  "tri_s1 tri r =
     Fin 0.5 * length_vec3 (cross (tri_point tri r - p1 tri) (tri_point tri r - p2 tri))
       / tri_area tri"

definition tri_s2 :: "Tri \<Rightarrow> Ray \<Rightarrow> float" where
  "tri_s2 tri r =
     Fin 0.5 * length_vec3 (cross (tri_point tri r - p2 tri) (tri_point tri r - p0 tri))
       / tri_area tri"

definition tri_s3 :: "Tri \<Rightarrow> Ray \<Rightarrow> float" where
  "tri_s3 tri r =
     Fin 0.5 * length_vec3 (cross (tri_point tri r - p0 tri) (tri_point tri r - p1 tri))
       / tri_area tri"

definition tri_sum :: "Tri \<Rightarrow> Ray \<Rightarrow> float" where
  "tri_sum tri r = tri_s1 tri r + tri_s2 tri r + tri_s3 tri r"

definition in_unit :: "float \<Rightarrow> bool" where
  "in_unit s \<longleftrightarrow> Fin 0 \<le> s \<and> s \<le> Fin 1"

text \<open>The triangle test returns without assigning \<^verbatim>\<open>normal\<close> in these cases.\<close>

definition tri_miss :: "Tri \<Rightarrow> Ray \<Rightarrow> bool" where
  "tri_miss tri r \<longleftrightarrow>
     tri_t tri r < Fin 0
     \<or> \<not> (in_unit (tri_s1 tri r) \<and> in_unit (tri_s2 tri r) \<and> in_unit (tri_s3 tri r)
           \<and> feq (tri_sum tri r) (Fin 1))"

section \<open>The tests as solvers in object space\<close>

text \<open>
  What the sphere, box and plane tests compute between the transformation of the ray into
  object space and the transformation of the hit back to world space: from the object-space
  ray, either nothing or the object-space hit point and the object-space normal.
\<close>

definition sphere_canonical :: "Ray \<Rightarrow> (vec3 \<times> vec3) option" where
  "sphere_canonical q =
     (if sphere_radicand q < Fin 0 then None
      else if sphere_t1 q < Fin 0 \<and> sphere_t2 q < Fin 0 then None
      else
        (let t = (if Fin 0 < sphere_t1 q \<and> Fin 0 < sphere_t2 q
                  then min_f (sphere_t1 q) (sphere_t2 q) else max_f (sphere_t1 q) (sphere_t2 q))
         in Some (getPointOnRay q t, getPointOnRay q t)))"

definition box_canonical :: "vec3 \<Rightarrow> Ray \<Rightarrow> (vec3 \<times> vec3) option" where
  "box_canonical dflt q =
     (let s = box_slabs dflt q
      in if tmin s \<le> tmax s \<and> Fin 0 < tmax s then
           (if tmin s \<le> Fin 0 then Some (getPointOnRay q (tmax s), tmax_n s)
            else Some (getPointOnRay q (tmin s), tmin_n s))
         else None)"

definition squareplane_canonical :: "Ray \<Rightarrow> (vec3 \<times> vec3) option" where
  "squareplane_canonical q =
     (if squareplane_accepts q then Some (squareplane_point q, vec3 (Fin 0) (Fin 0) (Fin 1))
      else None)"

section \<open>Behaviour described by the specification, for comparison\<close>

text \<open>
  The specification asks for a triangle test that accepts when the weights lie in \<open>[0,1]\<close>
  and their sum is within a tolerance \<open>eps\<close> of 1.
\<close>

definition tri_accepts_within :: "float \<Rightarrow> Tri \<Rightarrow> Ray \<Rightarrow> bool" where
  "tri_accepts_within eps tri r \<longleftrightarrow>
     Fin 0 \<le> tri_t tri r
     \<and> in_unit (tri_s1 tri r) \<and> in_unit (tri_s2 tri r) \<and> in_unit (tri_s3 tri r)
     \<and> Fin 1 - eps \<le> tri_sum tri r \<and> tri_sum tri r \<le> Fin 1 + eps"

text \<open>
  The specification speaks of triangles of zero area. Over the real numbers the area of a
  triangle is zero exactly when the cross product of two of its edges vanishes.
\<close>

definition exact_area_is_zero :: "Tri \<Rightarrow> bool" where
  "exact_area_is_zero tri \<longleftrightarrow>
     (let ax = valof (vx (p0 tri)) - valof (vx (p1 tri));
          ay = valof (vy (p0 tri)) - valof (vy (p1 tri));
          az = valof (vz (p0 tri)) - valof (vz (p1 tri));
          bx = valof (vx (p0 tri)) - valof (vx (p2 tri));
          by = valof (vy (p0 tri)) - valof (vy (p2 tri));
          bz = valof (vz (p0 tri)) - valof (vz (p2 tri))
      in ay * bz - by * az = 0 \<and> az * bx - bz * ax = 0 \<and> ax * by - bx * ay = 0)"

text \<open>
  The specification describes every test, the triangle test included, as transforming the
  ray into the object space of an instance, solving there, and transforming the hit point
  and the normal back. For a triangle of an instance \<open>g\<close> that reads as follows.
\<close>

definition tri_via_instance :: "Geom \<Rightarrow> Tri \<Rightarrow> Ray \<Rightarrow> vec3 \<Rightarrow> float \<times> vec3" where
  "tri_via_instance g tri r normal =
     (if tri_miss tri (toLocal g r) then (MAX_INTERSECT_DIST, normal)
      else toWorld g r (tri_point tri (toLocal g r)) (plane_normal tri))"

section \<open>Example inputs\<close>

definition identity_mat4 :: mat4 where
  "identity_mat4 =
     mat4 (vec4 (Fin 1) (Fin 0) (Fin 0) (Fin 0)) (vec4 (Fin 0) (Fin 1) (Fin 0) (Fin 0))
          (vec4 (Fin 0) (Fin 0) (Fin 1) (Fin 0)) (vec4 (Fin 0) (Fin 0) (Fin 0) (Fin 1))"

definition identity_geom :: Geom where
  "identity_geom =
     \<lparr>transform = identity_mat4, inverseTransform = identity_mat4, invTranspose = identity_mat4\<rparr>"

definition zero_vec3 :: vec3 where
  "zero_vec3 = vec3 (Fin 0) (Fin 0) (Fin 0)"

definition ray_at :: "real \<times> real \<times> real \<Rightarrow> real \<times> real \<times> real \<Rightarrow> Ray" where
  "ray_at o3 d3 =
     (case (o3, d3) of ((ox, oy, oz), (dx, dy, dz)) \<Rightarrow>
        \<lparr>origin = vec3 (Fin ox) (Fin oy) (Fin oz), direction = vec3 (Fin dx) (Fin dy) (Fin dz)\<rparr>)"

text \<open>The triangle \<open>(0,0,0)\<close>, \<open>(1,0,0)\<close>, \<open>(0,1,0)\<close> with plane normal \<open>(0,0,1)\<close>.\<close>

definition unit_tri :: Tri where
  "unit_tri =
     \<lparr>p0 = vec3 (Fin 0) (Fin 0) (Fin 0), p1 = vec3 (Fin 1) (Fin 0) (Fin 0),
      p2 = vec3 (Fin 0) (Fin 1) (Fin 0), plane_normal = vec3 (Fin 0) (Fin 0) (Fin 1)\<rparr>"

text \<open>A triangle of zero area: three points on a line.\<close>

definition flat_tri :: Tri where
  "flat_tri =
     \<lparr>p0 = vec3 (Fin 0) (Fin 0) (Fin 0), p1 = vec3 (Fin 1) (Fin 0) (Fin 0),
      p2 = vec3 (Fin 2) (Fin 0) (Fin 0), plane_normal = vec3 (Fin 0) (Fin 0) (Fin 1)\<rparr>"

text \<open>
  Three points on the line \<open>y = 3x\<close>, \<open>z = 0\<close>, each coordinate a binary32 value.
\<close>

definition collinear_tri :: Tri where
  "collinear_tri =
     \<lparr>p0 = vec3 (Fin 41297976) (Fin 123893928) (Fin 0),
      p1 = vec3 (Fin 2194) (Fin 6582) (Fin 0),
      p2 = vec3 (Fin 129) (Fin 387) (Fin 0), plane_normal = vec3 (Fin 0) (Fin 0) (Fin 1)\<rparr>"

text \<open>An instance translated by \<open>(0,0,1)\<close>.\<close>

definition lifted_geom :: Geom where
  "lifted_geom =
     \<lparr>transform =
        mat4 (vec4 (Fin 1) (Fin 0) (Fin 0) (Fin 0)) (vec4 (Fin 0) (Fin 1) (Fin 0) (Fin 0))
             (vec4 (Fin 0) (Fin 0) (Fin 1) (Fin 0)) (vec4 (Fin 0) (Fin 0) (Fin 1) (Fin 1)),
      inverseTransform =
        mat4 (vec4 (Fin 1) (Fin 0) (Fin 0) (Fin 0)) (vec4 (Fin 0) (Fin 1) (Fin 0) (Fin 0))
             (vec4 (Fin 0) (Fin 0) (Fin 1) (Fin 0)) (vec4 (Fin 0) (Fin 0) (Fin (- 1)) (Fin 1)),
      invTranspose =
        mat4 (vec4 (Fin 1) (Fin 0) (Fin 0) (Fin 0)) (vec4 (Fin 0) (Fin 1) (Fin 0) (Fin 0))
             (vec4 (Fin 0) (Fin 0) (Fin 1) (Fin (- 1))) (vec4 (Fin 0) (Fin 0) (Fin 0) (Fin 1))\<rparr>"


section \<open>Rounding\<close>

lemma floor_log2_eq:
  assumes "2 powi e \<le> x" "x < 2 powi (e + 1)"
  shows "\<lfloor>log 2 x\<rfloor> = e"
proof -
  have "(0::real) < 2 powi e"
    by simp
  with assms(1) have pos: "0 < x"
    by linarith
  have p: "(2::real) powr of_int k = 2 powi k" for k
    by (simp add: powr_real_of_int')
  have "2 powr (of_int e) \<le> x \<and> x < 2 powr (of_int e + 1)"
    using assms p [of e] p [of "e + 1"] by simp
  then show ?thesis
    using floor_log_eq_powr_iff [of x 2 e] pos by simp
qed

lemma ulp_exp_at:
  assumes "2 powi e \<le> \<bar>r\<bar>" "\<bar>r\<bar> < 2 powi (e + 1)"
  shows "ulp_exp r = max e (- 126) - 23"
  by (simp add: ulp_exp_def floor_log2_eq [OF assms])

text \<open>The rounding of a number whose binade \<open>e\<close> is known.\<close>

lemma rnd_at:
  assumes "2 powi e \<le> \<bar>r\<bar>" "\<bar>r\<bar> < 2 powi (e + 1)"
  shows "rnd r =
    of_int (round_even (r / 2 powi (max e (- 126) - 23))) * 2 powi (max e (- 126) - 23)"
proof -
  have "(0::real) < 2 powi e"
    by simp
  with assms(1) have "0 < \<bar>r\<bar>"
    by linarith
  then have "r \<noteq> 0"
    by simp
  then show ?thesis
    by (simp add: rnd_def ulp_exp_at [OF assms])
qed



lemma round_even_unique:
  assumes "of_int n - 1 / 2 < x" "x < of_int n + 1 / 2"
  shows "round_even x = n"
proof -
  have "of_int (n - 1) \<le> x" "x < of_int (n + 1)"
    using assms by simp_all
  then have "n - 1 \<le> \<lfloor>x\<rfloor>" "\<lfloor>x\<rfloor> < n + 1"
    by (simp_all only: le_floor_iff floor_less_iff)
  then consider "\<lfloor>x\<rfloor> = n" | "\<lfloor>x\<rfloor> = n - 1"
    by linarith
  then show ?thesis
  proof cases
    case 1
    with assms show ?thesis
      by (auto simp: round_even_def)
  next
    case 2
    with assms show ?thesis
      by (auto simp: round_even_def)
  qed
qed

text \<open>
  The rounding of a square root that is not a binary32 value: \<open>n\<close> times the spacing \<open>c\<close>
  is the nearest value when \<open>a\<close> lies between the squares of the two midpoints.
\<close>

lemma rnd_sqrt_at:
  assumes e: "(2 powi e)\<^sup>2 \<le> a" "a < (2 powi (e + 1))\<^sup>2"
    and c: "c = 2 powi (max e (- 126) - 23)"
    and n: "0 < n" "((of_int n - 1 / 2) * c)\<^sup>2 < a" "a < ((of_int n + 1 / 2) * c)\<^sup>2"
  shows "rnd (sqrt a) = of_int n * c"
proof -
  have cpos: "0 < c"
    by (simp add: c)
  have apos: "0 \<le> a"
    using e(1) by (meson order_trans zero_le_power2)
  have lo: "2 powi e \<le> sqrt a"
    using e(1) by (simp add: real_le_rsqrt)
  have hi: "sqrt a < 2 powi (e + 1)"
    using e(2) by (simp add: real_less_lsqrt)
  have s: "\<bar>sqrt a\<bar> = sqrt a"
    using apos by simp
  have r: "rnd (sqrt a) = of_int (round_even (sqrt a / c)) * c"
    using rnd_at [of e "sqrt a"] lo hi by (simp add: s c)
  have n1: "(of_int n - 1 / 2) * c < sqrt a"
    using n(1,2) cpos by (simp add: real_less_rsqrt)
  have n2: "sqrt a < (of_int n + 1 / 2) * c"
    using n(1,3) cpos apos by (simp add: real_less_lsqrt)
  have "round_even (sqrt a / c) = n"
    using n1 n2 cpos by (intro round_even_unique) (simp_all add: field_simps)
  then show ?thesis
    by (simp add: r)
qed

lemma round32_not_NaN: "round32 s r \<noteq> NaN"
  by (simp add: round32_def zero_of_def inf_of_def)


section \<open>Comparisons in the presence of NaN\<close>

lemma less_not_NaN: "(a::float) < b \<Longrightarrow> a \<noteq> NaN \<and> b \<noteq> NaN"
  by (cases a; cases b) (auto simp: less_float_def)

lemma float_less_asym: "(a::float) < b \<Longrightarrow> \<not> b < a"
  by (cases a; cases b) (auto simp: less_float_def)

lemma not_le_iff_less: "(a::float) \<noteq> NaN \<Longrightarrow> b \<noteq> NaN \<Longrightarrow> (\<not> a \<le> b) = (b < a)"
  by (cases a; cases b) (auto simp: less_float_def less_eq_float_def)

lemma not_less_iff_le: "(a::float) \<noteq> NaN \<Longrightarrow> b \<noteq> NaN \<Longrightarrow> (\<not> a < b) = (b \<le> a)"
  by (cases a; cases b) (auto simp: less_float_def less_eq_float_def)

lemma le_not_less: "(a::float) \<le> b \<Longrightarrow> \<not> b < a"
  by (cases a; cases b) (auto simp: less_float_def less_eq_float_def)

lemma uminus_not_NaN: "(a::float) \<noteq> NaN \<Longrightarrow> - a \<noteq> NaN"
  by (cases a) auto

lemma feq_zero: "feq a (Fin 0) \<Longrightarrow> a = Fin 0 \<or> a = NZero"
  by (cases a) (auto simp: feq_def)




section \<open>The operations on the five kinds of value\<close>

text \<open>
  The definitions of the operations, read off for each pair of constructors. These equations
  evaluate the tests on concrete inputs.
\<close>

lemma plus_float_eval:
  "Fin a + Fin b = round32 (a < 0 \<and> b < 0) (a + b)"
  "Fin a + NZero = round32 (a < 0) a"
  "Fin a + PInf = PInf"
  "Fin a + NInf = NInf"
  "Fin a + NaN = NaN"
  "NZero + Fin b = round32 (b < 0) b"
  "NZero + NZero = NZero"
  "NZero + PInf = PInf"
  "NZero + NInf = NInf"
  "NZero + NaN = NaN"
  "PInf + Fin b = PInf"
  "PInf + NZero = PInf"
  "PInf + PInf = PInf"
  "PInf + NInf = NaN"
  "PInf + NaN = NaN"
  "NInf + Fin b = NInf"
  "NInf + NZero = NInf"
  "NInf + PInf = NaN"
  "NInf + NInf = NInf"
  "NInf + NaN = NaN"
  "NaN + Fin b = NaN"
  "NaN + NZero = NaN"
  "NaN + PInf = NaN"
  "NaN + NInf = NaN"
  "NaN + NaN = NaN"
  by (simp_all add: plus_float_def round32_def zero_of_def inf_of_def)

lemma times_float_eval:
  "Fin a * Fin b = round32 ((a < 0) \<noteq> (b < 0)) (a * b)"
  "Fin a * NZero = zero_of (\<not> a < 0)"
  "Fin a * PInf = (if a = 0 then NaN else inf_of (a < 0))"
  "Fin a * NInf = (if a = 0 then NaN else inf_of (\<not> a < 0))"
  "Fin a * NaN = NaN"
  "NZero * Fin b = zero_of (\<not> b < 0)"
  "NZero * NZero = Fin 0"
  "NZero * PInf = NaN"
  "NZero * NInf = NaN"
  "NZero * NaN = NaN"
  "PInf * Fin b = (if b = 0 then NaN else inf_of (b < 0))"
  "PInf * NZero = NaN"
  "PInf * PInf = PInf"
  "PInf * NInf = NInf"
  "PInf * NaN = NaN"
  "NInf * Fin b = (if b = 0 then NaN else inf_of (\<not> b < 0))"
  "NInf * NZero = NaN"
  "NInf * PInf = NInf"
  "NInf * NInf = PInf"
  "NInf * NaN = NaN"
  "NaN * Fin b = NaN"
  "NaN * NZero = NaN"
  "NaN * PInf = NaN"
  "NaN * NInf = NaN"
  "NaN * NaN = NaN"
  by (simp_all add: times_float_def round32_def zero_of_def inf_of_def)

lemma divide_float_eval:
  "Fin a / Fin b = (if b = 0 then (if a = 0 then NaN else inf_of ((a < 0) \<noteq> (b < 0))) else round32 ((a < 0) \<noteq> (b < 0)) (a / b))"
  "Fin a / NZero = (if a = 0 then NaN else inf_of (\<not> a < 0))"
  "Fin a / PInf = zero_of (a < 0)"
  "Fin a / NInf = zero_of (\<not> a < 0)"
  "Fin a / NaN = NaN"
  "NZero / Fin b = (if b = 0 then NaN else zero_of (\<not> b < 0))"
  "NZero / NZero = NaN"
  "NZero / PInf = NZero"
  "NZero / NInf = Fin 0"
  "NZero / NaN = NaN"
  "PInf / Fin b = inf_of (b < 0)"
  "PInf / NZero = NInf"
  "PInf / PInf = NaN"
  "PInf / NInf = NaN"
  "PInf / NaN = NaN"
  "NInf / Fin b = inf_of (\<not> b < 0)"
  "NInf / NZero = PInf"
  "NInf / PInf = NaN"
  "NInf / NInf = NaN"
  "NInf / NaN = NaN"
  "NaN / Fin b = NaN"
  "NaN / NZero = NaN"
  "NaN / PInf = NaN"
  "NaN / NInf = NaN"
  "NaN / NaN = NaN"
  by (simp_all add: divide_float_def round32_def zero_of_def inf_of_def)

lemma less_float_eval:
  "(Fin a < Fin b) = (a < b)"
  "(Fin a < NZero) = (a < 0)"
  "(Fin a < PInf) = True"
  "(Fin a < NInf) = False"
  "(Fin a < NaN) = False"
  "(NZero < Fin b) = (0 < b)"
  "(NZero < NZero) = False"
  "(NZero < PInf) = True"
  "(NZero < NInf) = False"
  "(NZero < NaN) = False"
  "(PInf < Fin b) = False"
  "(PInf < NZero) = False"
  "(PInf < PInf) = False"
  "(PInf < NInf) = False"
  "(PInf < NaN) = False"
  "(NInf < Fin b) = True"
  "(NInf < NZero) = True"
  "(NInf < PInf) = True"
  "(NInf < NInf) = False"
  "(NInf < NaN) = False"
  "(NaN < Fin b) = False"
  "(NaN < NZero) = False"
  "(NaN < PInf) = False"
  "(NaN < NInf) = False"
  "(NaN < NaN) = False"
  by (simp_all add: less_float_def)

lemma less_eq_float_eval:
  "(Fin a \<le> Fin b) = (a \<le> b)"
  "(Fin a \<le> NZero) = (a \<le> 0)"
  "(Fin a \<le> PInf) = True"
  "(Fin a \<le> NInf) = False"
  "(Fin a \<le> NaN) = False"
  "(NZero \<le> Fin b) = (0 \<le> b)"
  "(NZero \<le> NZero) = True"
  "(NZero \<le> PInf) = True"
  "(NZero \<le> NInf) = False"
  "(NZero \<le> NaN) = False"
  "(PInf \<le> Fin b) = False"
  "(PInf \<le> NZero) = False"
  "(PInf \<le> PInf) = True"
  "(PInf \<le> NInf) = False"
  "(PInf \<le> NaN) = False"
  "(NInf \<le> Fin b) = True"
  "(NInf \<le> NZero) = True"
  "(NInf \<le> PInf) = True"
  "(NInf \<le> NInf) = True"
  "(NInf \<le> NaN) = False"
  "(NaN \<le> Fin b) = False"
  "(NaN \<le> NZero) = False"
  "(NaN \<le> PInf) = False"
  "(NaN \<le> NInf) = False"
  "(NaN \<le> NaN) = False"
  by (simp_all add: less_eq_float_def)

lemma feq_eval:
  "(feq (Fin a) (Fin b)) = (a = b)"
  "(feq (Fin a) NZero) = (a = 0)"
  "(feq (Fin a) PInf) = False"
  "(feq (Fin a) NInf) = False"
  "(feq (Fin a) NaN) = False"
  "(feq NZero (Fin b)) = (0 = b)"
  "(feq NZero NZero) = True"
  "(feq NZero PInf) = False"
  "(feq NZero NInf) = False"
  "(feq NZero NaN) = False"
  "(feq PInf (Fin b)) = False"
  "(feq PInf NZero) = False"
  "(feq PInf PInf) = True"
  "(feq PInf NInf) = False"
  "(feq PInf NaN) = False"
  "(feq NInf (Fin b)) = False"
  "(feq NInf NZero) = False"
  "(feq NInf PInf) = False"
  "(feq NInf NInf) = True"
  "(feq NInf NaN) = False"
  "(feq NaN (Fin b)) = False"
  "(feq NaN NZero) = False"
  "(feq NaN PInf) = False"
  "(feq NaN NInf) = False"
  "(feq NaN NaN) = False"
  by (simp_all add: feq_def)
section \<open>Rounding of the values that the examples compute\<close>

text \<open>
  Each line is an instance of \<open>rnd_at\<close> for the binade given; the lemmas are grouped by
  binade.
\<close>

lemma rnd_binade_m60:
  "rnd (1 / 1152921504606846976) = 1 / 1152921504606846976"
  by (simp_all add: rnd_at [where e = "- 60"] round_even_def)

lemma round32_binade_m60:
  "round32 s (1 / 1152921504606846976) = Fin (1 / 1152921504606846976)"
  by (simp_all add: round32_def inf_of_def rnd_binade_m60)

lemma rnd_binade_m32:
  "rnd (1 / 4294967296) = 1 / 4294967296"
  by (simp_all add: rnd_at [where e = "- 32"] round_even_def)

lemma round32_binade_m32:
  "round32 s (1 / 4294967296) = Fin (1 / 4294967296)"
  by (simp_all add: round32_def inf_of_def rnd_binade_m32)

lemma rnd_binade_m31:
  "rnd (- (1 / 2147483648)) = - (1 / 2147483648)"
  "rnd (1 / 2147483648) = 1 / 2147483648"
  by (simp_all add: rnd_at [where e = "- 31"] round_even_def)

lemma round32_binade_m31:
  "round32 s (- (1 / 2147483648)) = Fin (- (1 / 2147483648))"
  "round32 s (1 / 2147483648) = Fin (1 / 2147483648)"
  by (simp_all add: round32_def inf_of_def rnd_binade_m31)

lemma rnd_binade_m30:
  "rnd (- (1 / 1073741824)) = - (1 / 1073741824)"
  "rnd (1 / 1073741824) = 1 / 1073741824"
  by (simp_all add: rnd_at [where e = "- 30"] round_even_def)

lemma round32_binade_m30:
  "round32 s (- (1 / 1073741824)) = Fin (- (1 / 1073741824))"
  "round32 s (1 / 1073741824) = Fin (1 / 1073741824)"
  by (simp_all add: round32_def inf_of_def rnd_binade_m30)

lemma rnd_binade_m28:
  "rnd (1 / 268435456) = 1 / 268435456"
  by (simp_all add: rnd_at [where e = "- 28"] round_even_def)

lemma round32_binade_m28:
  "round32 s (1 / 268435456) = Fin (1 / 268435456)"
  by (simp_all add: round32_def inf_of_def rnd_binade_m28)

lemma rnd_binade_m16:
  "rnd (- (1 / 65536)) = - (1 / 65536)"
  "rnd (1 / 65536) = 1 / 65536"
  by (simp_all add: rnd_at [where e = "- 16"] round_even_def)

lemma round32_binade_m16:
  "round32 s (- (1 / 65536)) = Fin (- (1 / 65536))"
  "round32 s (1 / 65536) = Fin (1 / 65536)"
  by (simp_all add: round32_def inf_of_def rnd_binade_m16)

lemma rnd_binade_m15:
  "rnd (- (1 / 32768)) = - (1 / 32768)"
  "rnd (1 / 32768) = 1 / 32768"
  by (simp_all add: rnd_at [where e = "- 15"] round_even_def)

lemma round32_binade_m15:
  "round32 s (- (1 / 32768)) = Fin (- (1 / 32768))"
  "round32 s (1 / 32768) = Fin (1 / 32768)"
  by (simp_all add: round32_def inf_of_def rnd_binade_m15)

lemma rnd_binade_m14:
  "rnd (- (839 / 8388608)) = - (839 / 8388608)"
  "rnd (1 / 16384) = 1 / 16384"
  "rnd (1 / 10000) = 13743895 / 137438953472"
  by (simp_all add: rnd_at [where e = "- 14"] round_even_def)

lemma round32_binade_m14:
  "round32 s (- (839 / 8388608)) = Fin (- (839 / 8388608))"
  "round32 s (1 / 16384) = Fin (1 / 16384)"
  "round32 s (1 / 10000) = Fin (13743895 / 137438953472)"
  by (simp_all add: round32_def inf_of_def rnd_binade_m14)

lemma rnd_binade_m5:
  "rnd (180143990463529 / 4503599627370496) = 10737419 / 268435456"
  "rnd (2684355 / 67108864) = 2684355 / 67108864"
  "rnd (45036004326769 / 1125899906842624) = 2684355 / 67108864"
  by (simp_all add: rnd_at [where e = "- 5"] round_even_def)

lemma round32_binade_m5:
  "round32 s (180143990463529 / 4503599627370496) = Fin (10737419 / 268435456)"
  "round32 s (2684355 / 67108864) = Fin (2684355 / 67108864)"
  "round32 s (45036004326769 / 1125899906842624) = Fin (2684355 / 67108864)"
  by (simp_all add: round32_def inf_of_def rnd_binade_m5)

lemma rnd_binade_m4:
  "rnd (1 / 16) = 1 / 16"
  "rnd (6710887 / 67108864) = 6710887 / 67108864"
  by (simp_all add: rnd_at [where e = "- 4"] round_even_def)

lemma round32_binade_m4:
  "round32 s (1 / 16) = Fin (1 / 16)"
  "round32 s (6710887 / 67108864) = Fin (6710887 / 67108864)"
  by (simp_all add: round32_def inf_of_def rnd_binade_m4)

lemma rnd_binade_m3:
  "rnd (- (13421773 / 67108864)) = - (13421773 / 67108864)"
  "rnd (- (3 / 16)) = - (3 / 16)"
  "rnd (- (180143990463529 / 1125899906842624)) = - (10737419 / 67108864)"
  "rnd (1 / 8) = 1 / 8"
  "rnd (13421773 / 67108864) = 13421773 / 67108864"
  "rnd (53687095 / 268435456) = 6710887 / 33554432"
  "rnd (6710887 / 33554432) = 6710887 / 33554432"
  by (simp_all add: rnd_at [where e = "- 3"] round_even_def)

lemma round32_binade_m3:
  "round32 s (- (13421773 / 67108864)) = Fin (- (13421773 / 67108864))"
  "round32 s (- (3 / 16)) = Fin (- (3 / 16))"
  "round32 s (- (180143990463529 / 1125899906842624)) = Fin (- (10737419 / 67108864))"
  "round32 s (1 / 8) = Fin (1 / 8)"
  "round32 s (13421773 / 67108864) = Fin (13421773 / 67108864)"
  "round32 s (53687095 / 268435456) = Fin (6710887 / 33554432)"
  "round32 s (6710887 / 33554432) = Fin (6710887 / 33554432)"
  by (simp_all add: round32_def inf_of_def rnd_binade_m3)

lemma rnd_binade_m2:
  "rnd (- (1 / 4)) = - (1 / 4)"
  "rnd (1 / 4) = 1 / 4"
  "rnd (5033165 / 16777216) = 5033165 / 16777216"
  "rnd (3019899 / 8388608) = 3019899 / 8388608"
  "rnd (25332749917225 / 70368744177664) = 3019899 / 8388608"
  "rnd (32767 / 65536) = 32767 / 65536"
  "rnd (1073741823 / 2147483648) = 1 / 2"
  by (simp_all add: rnd_at [where e = "- 2"] round_even_def)

lemma round32_binade_m2:
  "round32 s (- (1 / 4)) = Fin (- (1 / 4))"
  "round32 s (1 / 4) = Fin (1 / 4)"
  "round32 s (5033165 / 16777216) = Fin (5033165 / 16777216)"
  "round32 s (3019899 / 8388608) = Fin (3019899 / 8388608)"
  "round32 s (25332749917225 / 70368744177664) = Fin (3019899 / 8388608)"
  "round32 s (32767 / 65536) = Fin (32767 / 65536)"
  "round32 s (1073741823 / 2147483648) = Fin (1 / 2)"
  by (simp_all add: round32_def inf_of_def rnd_binade_m2)

lemma rnd_binade_m1:
  "rnd (- (65535 / 65536)) = - (65535 / 65536)"
  "rnd (- (53687091 / 67108864)) = - (13421773 / 16777216)"
  "rnd (- (3 / 4)) = - (3 / 4)"
  "rnd (- (1 / 2)) = - (1 / 2)"
  "rnd (1 / 2) = 1 / 2"
  "rnd (1073741825 / 2147483648) = 1 / 2"
  "rnd (5001 / 10000) = 4195143 / 8388608"
  "rnd (4195143 / 8388608) = 4195143 / 8388608"
  "rnd (9 / 16) = 9 / 16"
  "rnd (5033165 / 8388608) = 5033165 / 8388608"
  "rnd (161061285 / 268435456) = 5033165 / 8388608"
  "rnd (625 / 1024) = 625 / 1024"
  "rnd (180143990463529 / 281474976710656) = 10737419 / 16777216"
  "rnd (3 / 4) = 3 / 4"
  "rnd (26843547 / 33554432) = 6710887 / 8388608"
  "rnd (1030625 / 1048576) = 1030625 / 1048576"
  "rnd (8388607 / 8388608) = 8388607 / 8388608"
  by (simp_all add: rnd_at [where e = "- 1"] round_even_def)

lemma round32_binade_m1:
  "round32 s (- (65535 / 65536)) = Fin (- (65535 / 65536))"
  "round32 s (- (53687091 / 67108864)) = Fin (- (13421773 / 16777216))"
  "round32 s (- (3 / 4)) = Fin (- (3 / 4))"
  "round32 s (- (1 / 2)) = Fin (- (1 / 2))"
  "round32 s (1 / 2) = Fin (1 / 2)"
  "round32 s (1073741825 / 2147483648) = Fin (1 / 2)"
  "round32 s (5001 / 10000) = Fin (4195143 / 8388608)"
  "round32 s (4195143 / 8388608) = Fin (4195143 / 8388608)"
  "round32 s (9 / 16) = Fin (9 / 16)"
  "round32 s (5033165 / 8388608) = Fin (5033165 / 8388608)"
  "round32 s (161061285 / 268435456) = Fin (5033165 / 8388608)"
  "round32 s (625 / 1024) = Fin (625 / 1024)"
  "round32 s (180143990463529 / 281474976710656) = Fin (10737419 / 16777216)"
  "round32 s (3 / 4) = Fin (3 / 4)"
  "round32 s (26843547 / 33554432) = Fin (6710887 / 8388608)"
  "round32 s (1030625 / 1048576) = Fin (1030625 / 1048576)"
  "round32 s (8388607 / 8388608) = Fin (8388607 / 8388608)"
  by (simp_all add: round32_def inf_of_def rnd_binade_m1)

lemma rnd_binade_0:
  "rnd (- (3 / 2)) = - (3 / 2)"
  "rnd (- (1137 / 1024)) = - (1137 / 1024)"
  "rnd (- (1073741825 / 1073741824)) = - 1"
  "rnd (- 1) = - 1"
  "rnd 1 = 1"
  "rnd (1073741825 / 1073741824) = 1"
  "rnd (33554435 / 33554432) = 8388609 / 8388608"
  "rnd (8388609 / 8388608) = 8388609 / 8388608"
  "rnd (1292769 / 1048576) = 1292769 / 1048576"
  "rnd (3 / 2) = 3 / 2"
  "rnd (1649 / 1024) = 1649 / 1024"
  by (simp_all add: rnd_at [where e = "0"] round_even_def)

lemma round32_binade_0:
  "round32 s (- (3 / 2)) = Fin (- (3 / 2))"
  "round32 s (- (1137 / 1024)) = Fin (- (1137 / 1024))"
  "round32 s (- (1073741825 / 1073741824)) = Fin (- 1)"
  "round32 s (- 1) = Fin (- 1)"
  "round32 s 1 = Fin 1"
  "round32 s (1073741825 / 1073741824) = Fin 1"
  "round32 s (33554435 / 33554432) = Fin (8388609 / 8388608)"
  "round32 s (8388609 / 8388608) = Fin (8388609 / 8388608)"
  "round32 s (1292769 / 1048576) = Fin (1292769 / 1048576)"
  "round32 s (3 / 2) = Fin (3 / 2)"
  "round32 s (1649 / 1024) = Fin (1649 / 1024)"
  by (simp_all add: round32_def inf_of_def rnd_binade_0)

lemma rnd_binade_1:
  "rnd (- (15 / 4)) = - (15 / 4)"
  "rnd (- 3) = - 3"
  "rnd (- (5 / 2)) = - (5 / 2)"
  "rnd (- 2) = - 2"
  "rnd 2 = 2"
  "rnd (9 / 4) = 9 / 4"
  "rnd (5 / 2) = 5 / 2"
  "rnd 3 = 3"
  "rnd (15 / 4) = 15 / 4"
  by (simp_all add: rnd_at [where e = "1"] round_even_def)

lemma round32_binade_1:
  "round32 s (- (15 / 4)) = Fin (- (15 / 4))"
  "round32 s (- 3) = Fin (- 3)"
  "round32 s (- (5 / 2)) = Fin (- (5 / 2))"
  "round32 s (- 2) = Fin (- 2)"
  "round32 s 2 = Fin 2"
  "round32 s (9 / 4) = Fin (9 / 4)"
  "round32 s (5 / 2) = Fin (5 / 2)"
  "round32 s 3 = Fin 3"
  "round32 s (15 / 4) = Fin (15 / 4)"
  by (simp_all add: round32_def inf_of_def rnd_binade_1)

lemma rnd_binade_2:
  "rnd (- (31 / 4)) = - (31 / 4)"
  "rnd 4 = 4"
  "rnd 5 = 5"
  "rnd (25 / 4) = 25 / 4"
  "rnd 7 = 7"
  by (simp_all add: rnd_at [where e = "2"] round_even_def)

lemma round32_binade_2:
  "round32 s (- (31 / 4)) = Fin (- (31 / 4))"
  "round32 s 4 = Fin 4"
  "round32 s 5 = Fin 5"
  "round32 s (25 / 4) = Fin (25 / 4)"
  "round32 s 7 = Fin 7"
  by (simp_all add: round32_def inf_of_def rnd_binade_2)

lemma rnd_binade_3:
  "rnd 8 = 8"
  "rnd (35 / 4) = 35 / 4"
  "rnd 9 = 9"
  by (simp_all add: rnd_at [where e = "3"] round_even_def)

lemma round32_binade_3:
  "round32 s 8 = Fin 8"
  "round32 s (35 / 4) = Fin (35 / 4)"
  "round32 s 9 = Fin 9"
  by (simp_all add: round32_def inf_of_def rnd_binade_3)

lemma rnd_binade_12:
  "rnd (- 4096) = - 4096"
  "rnd 4096 = 4096"
  by (simp_all add: rnd_at [where e = "12"] round_even_def)

lemma round32_binade_12:
  "round32 s (- 4096) = Fin (- 4096)"
  "round32 s 4096 = Fin 4096"
  by (simp_all add: round32_def inf_of_def rnd_binade_12)

lemma rnd_binade_13:
  "rnd (- 10001) = - 10001"
  "rnd (- 10000) = - 10000"
  "rnd (- 8192) = - 8192"
  "rnd 8192 = 8192"
  "rnd 10000 = 10000"
  "rnd (20001 / 2) = 20001 / 2"
  "rnd 10001 = 10001"
  by (simp_all add: rnd_at [where e = "13"] round_even_def)

lemma round32_binade_13:
  "round32 s (- 10001) = Fin (- 10001)"
  "round32 s (- 10000) = Fin (- 10000)"
  "round32 s (- 8192) = Fin (- 8192)"
  "round32 s 8192 = Fin 8192"
  "round32 s 10000 = Fin 10000"
  "round32 s (20001 / 2) = Fin (20001 / 2)"
  "round32 s 10001 = Fin 10001"
  by (simp_all add: round32_def inf_of_def rnd_binade_13)

lemma rnd_binade_14:
  "rnd (- 26384) = - 26384"
  "rnd 16384 = 16384"
  "rnd 26384 = 26384"
  by (simp_all add: rnd_at [where e = "14"] round_even_def)

lemma round32_binade_14:
  "round32 s (- 26384) = Fin (- 26384)"
  "round32 s 16384 = Fin 16384"
  "round32 s 26384 = Fin 26384"
  by (simp_all add: round32_def inf_of_def rnd_binade_14)

lemma rnd_binade_15:
  "rnd 32768 = 32768"
  by (simp_all add: rnd_at [where e = "15"] round_even_def)

lemma round32_binade_15:
  "round32 s 32768 = Fin 32768"
  by (simp_all add: round32_def inf_of_def rnd_binade_15)

lemma rnd_binade_23:
  "rnd (67108863 / 4) = 16777216"
  by (simp_all add: rnd_at [where e = "23"] round_even_def)

lemma round32_binade_23:
  "round32 s (67108863 / 4) = Fin 16777216"
  by (simp_all add: round32_def inf_of_def rnd_binade_23)

lemma rnd_binade_24:
  "rnd 16777216 = 16777216"
  "rnd 16777217 = 16777216"
  by (simp_all add: rnd_at [where e = "24"] round_even_def)

lemma round32_binade_24:
  "round32 s 16777216 = Fin 16777216"
  "round32 s 16777217 = Fin 16777216"
  by (simp_all add: round32_def inf_of_def rnd_binade_24)

lemma rnd_binade_25:
  "rnd 41295782 = 41295784"
  "rnd 41297847 = 41297848"
  "rnd 41297976 = 41297976"
  by (simp_all add: rnd_at [where e = "25"] round_even_def)

lemma round32_binade_25:
  "round32 s 41295782 = Fin 41295784"
  "round32 s 41297847 = Fin 41297848"
  "round32 s 41297976 = Fin 41297976"
  by (simp_all add: round32_def inf_of_def rnd_binade_25)

lemma rnd_binade_26:
  "rnd 100000000 = 100000000"
  "rnd 100020000 = 100020000"
  "rnd 100020001 = 100020000"
  "rnd 123887346 = 123887344"
  "rnd 123893541 = 123893544"
  "rnd 123893928 = 123893928"
  by (simp_all add: rnd_at [where e = "26"] round_even_def)

lemma round32_binade_26:
  "round32 s 100000000 = Fin 100000000"
  "round32 s 100020000 = Fin 100020000"
  "round32 s 100020001 = Fin 100020000"
  "round32 s 123887346 = Fin 123887344"
  "round32 s 123893541 = Fin 123893544"
  "round32 s 123893928 = Fin 123893928"
  by (simp_all add: round32_def inf_of_def rnd_binade_26)

lemma rnd_binade_28:
  "rnd 268435456 = 268435456"
  by (simp_all add: rnd_at [where e = "28"] round_even_def)

lemma round32_binade_28:
  "round32 s 268435456 = Fin 268435456"
  by (simp_all add: round32_def inf_of_def rnd_binade_28)

lemma rnd_binade_29:
  "rnd 536870912 = 536870912"
  "rnd 696115456 = 696115456"
  by (simp_all add: rnd_at [where e = "29"] round_even_def)

lemma round32_binade_29:
  "round32 s 536870912 = Fin 536870912"
  "round32 s 696115456 = Fin 696115456"
  by (simp_all add: round32_def inf_of_def rnd_binade_29)

lemma rnd_binade_52:
  "rnd 5116280701635712 = 5116280470241280"
  "rnd 5116281032018496 = 5116281007112192"
  by (simp_all add: rnd_at [where e = "52"] round_even_def)

lemma round32_binade_52:
  "round32 s 5116280701635712 = Fin 5116280470241280"
  "round32 s 5116281032018496 = Fin 5116281007112192"
  by (simp_all add: round32_def inf_of_def rnd_binade_52)

lemma rnd_binade_58:
  "rnd 288230376151711744 = 288230376151711744"
  by (simp_all add: rnd_at [where e = "58"] round_even_def)

lemma round32_binade_58:
  "round32 s 288230376151711744 = Fin 288230376151711744"
  by (simp_all add: round32_def inf_of_def rnd_binade_58)

lemma rnd_binade_126:
  "rnd (- 99999996802856924650656260769173209088) = - 99999996802856924650656260769173209088"
  "rnd (- (6553599790472031413905408705768535430758401 / 65536)) = - 99999996802856924650656260769173209088"
  "rnd 99999996802856924650656260769173209088 = 99999996802856924650656260769173209088"
  "rnd (6553599790472031413905408705768535430823935 / 65536) = 99999996802856924650656260769173209088"
  "rnd 100000000000000000000000000000000000000 = 99999996802856924650656260769173209088"
  by (simp_all add: rnd_at [where e = "126"] round_even_def)

lemma round32_binade_126:
  "round32 s (- 99999996802856924650656260769173209088) = Fin (- 99999996802856924650656260769173209088)"
  "round32 s (- (6553599790472031413905408705768535430758401 / 65536)) = Fin (- 99999996802856924650656260769173209088)"
  "round32 s 99999996802856924650656260769173209088 = Fin 99999996802856924650656260769173209088"
  "round32 s (6553599790472031413905408705768535430823935 / 65536) = Fin 99999996802856924650656260769173209088"
  "round32 s 100000000000000000000000000000000000000 = Fin 99999996802856924650656260769173209088"
  by (simp_all add: round32_def inf_of_def rnd_binade_126)

lemma rnd_binade_252:
  "rnd 9999999360571395151855096408094100292528450317323378250419607338732165791744 = 9999998946708795591406410964278011532772757624203936528060700229318702268416"
  by (simp_all add: rnd_at [where e = "252"] round_even_def)

lemma round32_binade_252:
  "round32 s 9999999360571395151855096408094100292528450317323378250419607338732165791744 = PInf"
  by (simp_all add: round32_def inf_of_def rnd_binade_252)

text \<open>Square roots that are exact.\<close>

lemma sqrt_exact:
  "sqrt (1 / 1152921504606846976) = 1 / 1073741824"
  "sqrt (1 / 4294967296) = 1 / 65536"
  "sqrt (1 / 1073741824) = 1 / 32768"
  "sqrt (1 / 268435456) = 1 / 16384"
  "sqrt (1 / 16) = 1 / 4"
  "sqrt (1 / 4) = 1 / 2"
  "sqrt (9 / 4) = 3 / 2"
  "sqrt (25 / 4) = 5 / 2"
  "sqrt 9 = 3"
  "sqrt 16777216 = 4096"
  "sqrt 100000000 = 10000"
  "sqrt 696115456 = 26384"
  "sqrt 288230376151711744 = 536870912"
  by (rule real_sqrt_unique; simp add: power2_eq_square)+

lemma sqrt_rounded_1: "rnd (sqrt (2684355 / 67108864)) = 6710887 / 33554432"
  using rnd_sqrt_at [where e = "- 3" and n = 13421774 and a = "2684355 / 67108864" and c = "1 / 67108864"]
  by (simp add: power2_eq_square)

lemma round32_sqrt_1: "round32 s (sqrt (2684355 / 67108864)) = Fin (6710887 / 33554432)"
  by (simp add: round32_def sqrt_rounded_1)

lemma sqrt_rounded_2: "rnd (sqrt (3019899 / 8388608)) = 5033165 / 8388608"
  using rnd_sqrt_at [where e = "- 1" and n = 10066330 and a = "3019899 / 8388608" and c = "1 / 16777216"]
  by (simp add: power2_eq_square)

lemma round32_sqrt_2: "round32 s (sqrt (3019899 / 8388608)) = Fin (5033165 / 8388608)"
  by (simp add: round32_def sqrt_rounded_2)

lemma sqrt_rounded_3: "rnd (sqrt 100020000) = 10001"
  using rnd_sqrt_at [where e = "13" and n = 10241024 and a = "100020000" and c = "1 / 1024"]
  by (simp add: power2_eq_square)

lemma round32_sqrt_3: "round32 s (sqrt 100020000) = Fin 10001"
  by (simp add: round32_def sqrt_rounded_3)

lemma round32_zero: "round32 s 0 = zero_of s"
  by (simp add: round32_def)

lemmas round32_table =
  round32_zero round32_binade_m60 round32_binade_m32 round32_binade_m31 round32_binade_m30 round32_binade_m28 round32_binade_m16 round32_binade_m15 round32_binade_m14 round32_binade_m5 round32_binade_m4 round32_binade_m3 round32_binade_m2 round32_binade_m1 round32_binade_0 round32_binade_1 round32_binade_2 round32_binade_3 round32_binade_12 round32_binade_13 round32_binade_14 round32_binade_15 round32_binade_23 round32_binade_24 round32_binade_25 round32_binade_26 round32_binade_28 round32_binade_29 round32_binade_52 round32_binade_58 round32_binade_126 round32_binade_252 round32_sqrt_1 round32_sqrt_2 round32_sqrt_3 sqrt_exact
section \<open>Evaluation lemmas\<close>

lemmas float_eval =
  plus_float_eval minus_float_def times_float_eval divide_float_eval less_float_eval
  less_eq_float_eval feq_eval zero_of_def inf_of_def f32_def round32_table

lemmas vec_defs =
  multiplyMV_def mat_mul_vec_def vec4_of_def vec3_of_def normalize_vec3_def scale3_def
  scale3r_def dot_def cross_def length_vec3_def inversesqrt_def getPointOnRay_def
  plus_vec3_def minus_vec3_def powf2_def

lemma box_loop_unroll:
  "box_loop dflt q 0 s = box_body dflt q 2 (box_body dflt q 1 (box_body dflt q 0 s))"
  by (simp add: box_loop.simps [of _ _ 0] box_loop.simps [of _ _ "Suc 0"]
      box_loop.simps [of _ _ "Suc (Suc 0)"] box_loop.simps [of _ _ "Suc (Suc (Suc 0))"]
      numeral_2_eq_2)

lemmas sphere_eval =
  toLocal_def sphere_radicand_def sphere_t1_def sphere_t2_def toWorld_def identity_geom_def
  identity_mat4_def ray_at_def zero_vec3_def vec_defs float_eval Let_def
  MAX_INTERSECT_DIST_def min_f_def max_f_def

lemmas box_eval =
  box_slabs_def box_init_def box_loop_unroll box_body_def glm_min_def glm_max_def
  vec3_nth_def vec3_upd_def

lemmas plane_eval =
  squareplane_t_def squareplane_point_def squareplane_accepts_def sphere_eval

lemmas tri_eval =
  tri_t_def tri_point_def tri_area_def tri_s1_def tri_s2_def tri_s3_def tri_sum_def
  in_unit_def unit_tri_def flat_tri_def collinear_tri_def ray_at_def zero_vec3_def vec_defs
  float_eval

text \<open>The binary32 values of the decimal literals of the source.\<close>

lemma literal_values:
  "f32 0.0001 = Fin (13743895 / 137438953472)"
  "f32 0.5001 = Fin (4195143 / 8388608)"
  "f32 (10 ^ 38) = Fin 99999996802856924650656260769173209088"
  by (simp_all add: float_eval)

section \<open>Closed-form examples\<close>

text \<open>
  C9. With identity transforms, the sphere test on the ray from \<open>(0,0,-2)\<close> in direction
  \<open>+z\<close> returns distance 1.5 and normal \<open>(0,0,-1)\<close>, and the box test on the ray from
  \<open>(2,0,0)\<close> in direction \<open>-x\<close> returns distance 1.5 and normal \<open>(1,0,0)\<close>. The box normal
  is the default-constructed vector with its \<open>x\<close> component set to 1, so the second part is
  stated for a default constructor that fills with zeros.
\<close>

theorem canonical_hits_closed_form:
  "sphereIntersectionTest identity_geom
     \<lparr>origin = vec3 (Fin 0) (Fin 0) (Fin (- 2)), direction = vec3 (Fin 0) (Fin 0) (Fin 1)\<rparr> n
     = (Fin 1.5, vec3 (Fin 0) (Fin 0) (Fin (- 1)))
   \<and> boxIntersectionTest zero_vec3 identity_geom
     \<lparr>origin = vec3 (Fin 2) (Fin 0) (Fin 0), direction = vec3 (Fin (- 1)) (Fin 0) (Fin 0)\<rparr> n
     = (Fin 1.5, vec3 (Fin 1) (Fin 0) (Fin 0))"
proof
  show "sphereIntersectionTest identity_geom
     \<lparr>origin = vec3 (Fin 0) (Fin 0) (Fin (- 2)), direction = vec3 (Fin 0) (Fin 0) (Fin 1)\<rparr> n
     = (Fin 1.5, vec3 (Fin 0) (Fin 0) (Fin (- 1)))"
    by (simp add: sphereIntersectionTest_def sphere_eval)
  show "boxIntersectionTest zero_vec3 identity_geom
     \<lparr>origin = vec3 (Fin 2) (Fin 0) (Fin 0), direction = vec3 (Fin (- 1)) (Fin 0) (Fin 0)\<rparr> n
     = (Fin 1.5, vec3 (Fin 1) (Fin 0) (Fin 0))"
    by (simp add: boxIntersectionTest_def box_eval sphere_eval)
qed


section \<open>Sphere: choice of the root\<close>

lemma sphereIntersectionTest_unfold:
  "sphereIntersectionTest g r n =
    (if sphere_radicand (toLocal g r) < Fin 0 then (MAX_INTERSECT_DIST, n)
     else if sphere_t1 (toLocal g r) < Fin 0 \<and> sphere_t2 (toLocal g r) < Fin 0
       then (MAX_INTERSECT_DIST, n)
     else
       (let t = (if Fin 0 < sphere_t1 (toLocal g r) \<and> Fin 0 < sphere_t2 (toLocal g r)
                 then min_f (sphere_t1 (toLocal g r)) (sphere_t2 (toLocal g r))
                 else max_f (sphere_t1 (toLocal g r)) (sphere_t2 (toLocal g r)))
        in toWorld g r (getPointOnRay (toLocal g r) t) (getPointOnRay (toLocal g r) t)))"
  by (simp add: sphereIntersectionTest_def toLocal_def toWorld_def sphere_radicand_def
      sphere_t1_def sphere_t2_def Let_def)

text \<open>
  \<^verbatim>\<open>min\<close> and \<^verbatim>\<open>max\<close> return one of their arguments, and when exactly one of the two roots
  is positive, \<^verbatim>\<open>max\<close> returns that one.
\<close>

lemma min_f_max_f_cases:
  "min_f a b = a \<or> min_f a b = b" "max_f a b = a \<or> max_f a b = b"
  by (auto simp: min_f_def max_f_def)

lemma max_f_positive:
  assumes "Fin 0 < a" "\<not> Fin 0 < b"
  shows "max_f a b = a" "max_f b a = a"
  using assms by (cases a; cases b; simp add: max_f_def float_eval)+

text \<open>
  C4 (amended). With \<open>q\<close> the object-space ray, \<open>radicand\<close> the discriminant as the test
  computes it, and \<open>t1\<close>, \<open>t2\<close> the two roots computed from it: the sphere test reports no
  hit when the discriminant is negative, and when both roots are negative; when both roots
  are positive it uses the smaller of the two, \<^verbatim>\<open>min(t1, t2)\<close>; in every remaining case it
  uses the larger of the two, \<^verbatim>\<open>max(t1, t2)\<close>, and reports a hit. The remaining cases
  include a larger root equal to 0: no root is positive there, and the test still reports
  a hit.
\<close>

theorem sphere_root_selection:
  "(sphere_radicand (toLocal g r) < Fin 0 \<longrightarrow>
      sphereIntersectionTest g r n = (MAX_INTERSECT_DIST, n))
   \<and> (\<not> sphere_radicand (toLocal g r) < Fin 0
        \<and> sphere_t1 (toLocal g r) < Fin 0 \<and> sphere_t2 (toLocal g r) < Fin 0 \<longrightarrow>
      sphereIntersectionTest g r n = (MAX_INTERSECT_DIST, n))
   \<and> (\<not> sphere_radicand (toLocal g r) < Fin 0
        \<and> Fin 0 < sphere_t1 (toLocal g r) \<and> Fin 0 < sphere_t2 (toLocal g r) \<longrightarrow>
      sphereIntersectionTest g r n =
        toWorld g r
          (getPointOnRay (toLocal g r) (min_f (sphere_t1 (toLocal g r)) (sphere_t2 (toLocal g r))))
          (getPointOnRay (toLocal g r) (min_f (sphere_t1 (toLocal g r)) (sphere_t2 (toLocal g r)))))
   \<and> (\<not> sphere_radicand (toLocal g r) < Fin 0
        \<and> \<not> (sphere_t1 (toLocal g r) < Fin 0 \<and> sphere_t2 (toLocal g r) < Fin 0)
        \<and> \<not> (Fin 0 < sphere_t1 (toLocal g r) \<and> Fin 0 < sphere_t2 (toLocal g r)) \<longrightarrow>
      sphereIntersectionTest g r n =
        toWorld g r
          (getPointOnRay (toLocal g r) (max_f (sphere_t1 (toLocal g r)) (sphere_t2 (toLocal g r))))
          (getPointOnRay (toLocal g r) (max_f (sphere_t1 (toLocal g r)) (sphere_t2 (toLocal g r)))))"
  by (auto simp: sphereIntersectionTest_unfold Let_def dest: float_less_asym)

text \<open>
  Four rays against the canonical sphere: one that passes beside it, one that points away
  from it (both roots negative), the ray of the closed-form example (both roots positive),
  and one that starts at the centre.
\<close>

theorem sphere_root_selection_witness:
  "sphere_radicand (toLocal identity_geom (ray_at (0, 0, - 2) (1, 0, 0))) < Fin 0
   \<and> sphereIntersectionTest identity_geom (ray_at (0, 0, - 2) (1, 0, 0)) zero_vec3
       = (Fin 10000, zero_vec3)
   \<and> sphere_t1 (toLocal identity_geom (ray_at (0, 0, 2) (0, 0, 1))) = Fin (- (3 / 2))
   \<and> sphere_t2 (toLocal identity_geom (ray_at (0, 0, 2) (0, 0, 1))) = Fin (- (5 / 2))
   \<and> sphereIntersectionTest identity_geom (ray_at (0, 0, 2) (0, 0, 1)) zero_vec3
       = (Fin 10000, zero_vec3)
   \<and> Fin 0 < sphere_t2 (toLocal identity_geom (ray_at (0, 0, - 2) (0, 0, 1)))
   \<and> sphere_t2 (toLocal identity_geom (ray_at (0, 0, - 2) (0, 0, 1))) = Fin 1.5
   \<and> sphereIntersectionTest identity_geom (ray_at (0, 0, - 2) (0, 0, 1)) zero_vec3
       = (Fin 1.5, vec3 (Fin 0) (Fin 0) (Fin (- 1)))
   \<and> sphere_t2 (toLocal identity_geom (ray_at (0, 0, 0) (0, 0, 1))) < Fin 0
   \<and> sphere_t1 (toLocal identity_geom (ray_at (0, 0, 0) (0, 0, 1))) = Fin 0.5
   \<and> sphereIntersectionTest identity_geom (ray_at (0, 0, 0) (0, 0, 1)) zero_vec3
       = (Fin 0.5, vec3 (Fin 0) (Fin 0) (Fin 1))"
proof -
  let ?a = "ray_at (0, 0, - 2) (1, 0, 0)"
  let ?b = "ray_at (0, 0, - 2) (0, 0, 1)"
  let ?c = "ray_at (0, 0, 0) (0, 0, 1)"
  let ?d = "ray_at (0, 0, 2) (0, 0, 1)"
  have a: "sphere_radicand (toLocal identity_geom ?a) < Fin 0"
    by (simp add: sphere_eval)
  have b: "\<not> sphere_radicand (toLocal identity_geom ?b) < Fin 0"
    "sphere_t1 (toLocal identity_geom ?b) = Fin (5 / 2)"
    "sphere_t2 (toLocal identity_geom ?b) = Fin (3 / 2)"
    by (simp_all add: sphere_eval)
  have c: "\<not> sphere_radicand (toLocal identity_geom ?c) < Fin 0"
    "sphere_t1 (toLocal identity_geom ?c) = Fin (1 / 2)"
    "sphere_t2 (toLocal identity_geom ?c) = Fin (- (1 / 2))"
    by (simp_all add: sphere_eval)
  have d: "\<not> sphere_radicand (toLocal identity_geom ?d) < Fin 0"
    "sphere_t1 (toLocal identity_geom ?d) = Fin (- (3 / 2))"
    "sphere_t2 (toLocal identity_geom ?d) = Fin (- (5 / 2))"
    by (simp_all add: sphere_eval)
  have w: "toWorld identity_geom ?b (getPointOnRay (toLocal identity_geom ?b) (Fin (3 / 2)))
             (getPointOnRay (toLocal identity_geom ?b) (Fin (3 / 2)))
           = (Fin (3 / 2), vec3 (Fin 0) (Fin 0) (Fin (- 1)))"
    "toWorld identity_geom ?c (getPointOnRay (toLocal identity_geom ?c) (Fin (1 / 2)))
             (getPointOnRay (toLocal identity_geom ?c) (Fin (1 / 2)))
           = (Fin (1 / 2), vec3 (Fin 0) (Fin 0) (Fin 1))"
    by (simp_all add: sphere_eval)
  have m: "min_f (Fin (5 / 2)) (Fin (3 / 2)) = Fin (3 / 2)"
    "max_f (Fin (1 / 2)) (Fin (- (1 / 2))) = Fin (1 / 2)"
    by (simp_all add: min_f_def max_f_def float_eval)
  show ?thesis
    using sphere_root_selection [of identity_geom ?a zero_vec3]
      sphere_root_selection [of identity_geom ?b zero_vec3]
      sphere_root_selection [of identity_geom ?c zero_vec3]
      sphere_root_selection [of identity_geom ?d zero_vec3]
    by (simp add: a b c d m w less_float_eval MAX_INTERSECT_DIST_def)
qed

text \<open>
  The claim as the specification words it (no hit when no root is positive) fails for a ray
  that starts on the sphere and points away from it: the roots are 0 and \<open>-1\<close>, neither is
  positive, and the test reports a hit at distance 0 with normal \<open>(0,0,1)\<close>.
\<close>

theorem sphere_hit_at_zero_root:
  "\<not> sphere_radicand (toLocal identity_geom (ray_at (0, 0, 0.5) (0, 0, 1))) < Fin 0
   \<and> sphere_t1 (toLocal identity_geom (ray_at (0, 0, 0.5) (0, 0, 1))) = Fin 0
   \<and> sphere_t2 (toLocal identity_geom (ray_at (0, 0, 0.5) (0, 0, 1))) = Fin (- 1)
   \<and> sphereIntersectionTest identity_geom (ray_at (0, 0, 0.5) (0, 0, 1)) zero_vec3
       = (Fin 0, vec3 (Fin 0) (Fin 0) (Fin 1))"
  by (simp add: sphereIntersectionTest_def sphere_eval)

text \<open>
  The discriminant is the one the test computes, in single precision. The ray from
  \<open>(1,0,-4096)\<close> in direction \<open>+z\<close> passes the sphere of radius 0.5 at distance 1 from its
  centre. The computed discriminant is \<open>4096\<^sup>2 - (4096\<^sup>2 + 1 - 0.25)\<close>, where
  \<open>4096\<^sup>2 + 1\<close> rounds to \<open>4096\<^sup>2\<close> and the subtraction of 0.25 rounds back to
  \<open>4096\<^sup>2\<close>: it is 0, both roots are 4096, and the test reports a hit.
\<close>

lemma sphere_hit_beside_sphere:
  "sphere_radicand (toLocal identity_geom (ray_at (1, 0, - 4096) (0, 0, 1))) = Fin 0
   \<and> sphere_t1 (toLocal identity_geom (ray_at (1, 0, - 4096) (0, 0, 1))) = Fin 4096
   \<and> sphere_t2 (toLocal identity_geom (ray_at (1, 0, - 4096) (0, 0, 1))) = Fin 4096
   \<and> sphereIntersectionTest identity_geom (ray_at (1, 0, - 4096) (0, 0, 1)) zero_vec3
       = (Fin 4096, vec3 (Fin 1) (Fin 0) (Fin 0))"
  by (simp add: sphereIntersectionTest_def sphere_eval)

section \<open>Box: the slab decision\<close>

text \<open>
  The running parameters are never NaN: \<^verbatim>\<open>tmin\<close> is only overwritten by a value that
  compared greater than 0, and \<^verbatim>\<open>tmax\<close> only by a value that compared less than \<^verbatim>\<open>tmax\<close>.
\<close>

lemma box_body_not_NaN:
  assumes "tmin s \<noteq> NaN" "tmax s \<noteq> NaN"
  shows "tmin (box_body dflt q xyz s) \<noteq> NaN \<and> tmax (box_body dflt q xyz s) \<noteq> NaN"
  using assms by (auto simp: box_body_def Let_def dest: less_not_NaN)

lemma box_slabs_not_NaN:
  "tmin (box_slabs dflt q) \<noteq> NaN \<and> tmax (box_slabs dflt q) \<noteq> NaN"
proof -
  have 0: "tmin (box_init dflt) \<noteq> NaN \<and> tmax (box_init dflt) \<noteq> NaN"
    by (simp add: box_init_def f32_def round32_not_NaN uminus_not_NaN)
  note 1 = box_body_not_NaN [OF conjunct1 [OF 0] conjunct2 [OF 0], of dflt q 0]
  note 2 = box_body_not_NaN [OF conjunct1 [OF 1] conjunct2 [OF 1], of dflt q 1]
  note 3 = box_body_not_NaN [OF conjunct1 [OF 2] conjunct2 [OF 2], of dflt q 2]
  show ?thesis
    unfolding box_slabs_def box_loop_unroll by (rule 3)
qed

lemma box_guard:
  "(\<not> (tmin (box_slabs dflt q) \<le> tmax (box_slabs dflt q) \<and> Fin 0 < tmax (box_slabs dflt q)))
   = (tmax (box_slabs dflt q) < tmin (box_slabs dflt q) \<or> tmax (box_slabs dflt q) \<le> Fin 0)"
  using box_slabs_not_NaN [of dflt q]
  by (simp add: not_le_iff_less not_less_iff_le)

lemma boxIntersectionTest_unfold:
  "boxIntersectionTest dflt g r n =
    (let s = box_slabs dflt (toLocal g r) in
     if tmin s \<le> tmax s \<and> Fin 0 < tmax s then
       (if tmin s \<le> Fin 0 then toWorld g r (getPointOnRay (toLocal g r) (tmax s)) (tmax_n s)
        else toWorld g r (getPointOnRay (toLocal g r) (tmin s)) (tmin_n s))
     else (MAX_INTERSECT_DIST, n))"
  by (simp add: boxIntersectionTest_def box_slabs_def box_init_def toLocal_def toWorld_def
      Let_def)

text \<open>
  C5. With \<open>s\<close> the running entry and exit parameters after the loop over the three axes
  of the object-space ray: the box test reports no hit exactly when \<open>tmax < tmin\<close> or
  \<open>tmax \<le> 0\<close>; otherwise, when \<open>tmin \<le> 0\<close>, it returns the hit at \<open>tmax\<close> with the normal
  recorded for \<open>tmax\<close>, and else the hit at \<open>tmin\<close> with the normal recorded for \<open>tmin\<close>.
\<close>

theorem box_slab_decision:
  "boxIntersectionTest dflt g r n =
    (let s = box_slabs dflt (toLocal g r) in
     if tmax s < tmin s \<or> tmax s \<le> Fin 0 then (MAX_INTERSECT_DIST, n)
     else if tmin s \<le> Fin 0
       then toWorld g r (getPointOnRay (toLocal g r) (tmax s)) (tmax_n s)
       else toWorld g r (getPointOnRay (toLocal g r) (tmin s)) (tmin_n s))"
proof -
  let ?s = "box_slabs dflt (toLocal g r)"
  let ?hit = "if tmin ?s \<le> Fin 0
       then toWorld g r (getPointOnRay (toLocal g r) (tmax ?s)) (tmax_n ?s)
       else toWorld g r (getPointOnRay (toLocal g r) (tmin ?s)) (tmin_n ?s)"
  have "boxIntersectionTest dflt g r n =
      (if \<not> (tmin ?s \<le> tmax ?s \<and> Fin 0 < tmax ?s) then (MAX_INTERSECT_DIST, n) else ?hit)"
    by (simp add: boxIntersectionTest_unfold Let_def)
  also have "\<dots> =
      (if tmax ?s < tmin ?s \<or> tmax ?s \<le> Fin 0 then (MAX_INTERSECT_DIST, n) else ?hit)"
    by (simp only: box_guard)
  finally show ?thesis
    by (simp only: Let_def)
qed

text \<open>
  A ray that starts at the centre of the canonical box leaves it at \<open>tmax = 0.5\<close>; a ray
  that passes beside the box has \<open>tmax < tmin\<close>.
\<close>

theorem box_slab_decision_witness:
  "tmin (box_slabs zero_vec3 (toLocal identity_geom (ray_at (0, 0, 0) (1, 0, 0)))) \<le> Fin 0
   \<and> tmax (box_slabs zero_vec3 (toLocal identity_geom (ray_at (0, 0, 0) (1, 0, 0)))) = Fin 0.5
   \<and> boxIntersectionTest zero_vec3 identity_geom (ray_at (0, 0, 0) (1, 0, 0)) zero_vec3
       = (Fin 0.5, vec3 (Fin (- 1)) (Fin 0) (Fin 0))
   \<and> tmax (box_slabs zero_vec3 (toLocal identity_geom (ray_at (2, 2, 0) (- 1, 0, 0))))
       < tmin (box_slabs zero_vec3 (toLocal identity_geom (ray_at (2, 2, 0) (- 1, 0, 0))))
   \<and> boxIntersectionTest zero_vec3 identity_geom (ray_at (2, 2, 0) (- 1, 0, 0)) zero_vec3
       = (Fin 10000, zero_vec3)"
  using box_slab_decision [of zero_vec3 identity_geom "ray_at (0, 0, 0) (1, 0, 0)" zero_vec3]
    box_slab_decision [of zero_vec3 identity_geom "ray_at (2, 2, 0) (- 1, 0, 0)" zero_vec3]
  by (simp add: box_eval sphere_eval)

section \<open>Square plane: acceptance\<close>

lemma squareplaneIntersectionTest_unfold:
  "squareplaneIntersectionTest g r n =
    (if squareplane_accepts (toLocal g r)
     then toWorld g r (squareplane_point (toLocal g r)) (vec3 (Fin 0) (Fin 0) (Fin 1))
     else (MAX_INTERSECT_DIST, n))"
  by (simp add: squareplaneIntersectionTest_def squareplane_accepts_def squareplane_point_def
      squareplane_t_def toLocal_def toWorld_def vec4_of_def Let_def)

text \<open>
  C8. The plane test accepts a hit only if the object-space ray parameter \<open>t\<close> exceeds
  \<^verbatim>\<open>0.0001f\<close> and the object-space hit point has \<open>x\<close> and \<open>y\<close> within
  \<^verbatim>\<open>[-0.5001f, 0.5001f]\<close>; otherwise it reports no hit. The bounds are the single-precision
  values of the literals: \<^verbatim>\<open>0.0001f\<close> is \<open>13743895 / 2\<^sup>3\<^sup>7\<close> and \<^verbatim>\<open>0.5001f\<close> is
  \<open>4195143 / 2\<^sup>2\<^sup>3\<close>.
\<close>

theorem squareplane_acceptance:
  "squareplaneIntersectionTest g r n =
    (if f32 0.0001 < squareplane_t (toLocal g r)
        \<and> - f32 0.5001 \<le> vx (squareplane_point (toLocal g r))
        \<and> vx (squareplane_point (toLocal g r)) \<le> f32 0.5001
        \<and> - f32 0.5001 \<le> vy (squareplane_point (toLocal g r))
        \<and> vy (squareplane_point (toLocal g r)) \<le> f32 0.5001
     then toWorld g r (squareplane_point (toLocal g r)) (vec3 (Fin 0) (Fin 0) (Fin 1))
     else (MAX_INTERSECT_DIST, n))
   \<and> f32 0.0001 = Fin (13743895 / 2 ^ 37)
   \<and> f32 0.5001 = Fin (4195143 / 2 ^ 23)
   \<and> - f32 0.5001 = Fin (- (4195143 / 2 ^ 23))"
  by (simp add: squareplaneIntersectionTest_unfold squareplane_accepts_def float_eval)

text \<open>
  A ray onto the centre of the canonical square, one that lands beside it, and one that
  lands on the bound \<^verbatim>\<open>0.5001f\<close> itself.
\<close>

theorem squareplane_acceptance_witness:
  "squareplane_t (toLocal identity_geom (ray_at (0, 0, 1) (0, 0, - 1))) = Fin 1
   \<and> squareplane_point (toLocal identity_geom (ray_at (0, 0, 1) (0, 0, - 1))) = zero_vec3
   \<and> squareplaneIntersectionTest identity_geom (ray_at (0, 0, 1) (0, 0, - 1)) zero_vec3
       = (Fin 1, vec3 (Fin 0) (Fin 0) (Fin 1))
   \<and> vx (squareplane_point (toLocal identity_geom (ray_at (1, 0, 1) (0, 0, - 1)))) = Fin 1
   \<and> squareplaneIntersectionTest identity_geom (ray_at (1, 0, 1) (0, 0, - 1)) zero_vec3
       = (Fin 10000, zero_vec3)
   \<and> vx (squareplane_point
            (toLocal identity_geom (ray_at (4195143 / 8388608, 0, 1) (0, 0, - 1))))
       = Fin (4195143 / 8388608)
   \<and> squareplaneIntersectionTest identity_geom
        (ray_at (4195143 / 8388608, 0, 1) (0, 0, - 1)) zero_vec3
       = (Fin 1, vec3 (Fin 0) (Fin 0) (Fin 1))"
  using squareplane_acceptance [of identity_geom "ray_at (0, 0, 1) (0, 0, - 1)" zero_vec3]
    squareplane_acceptance [of identity_geom "ray_at (1, 0, 1) (0, 0, - 1)" zero_vec3]
    squareplane_acceptance [of identity_geom "ray_at (4195143 / 8388608, 0, 1) (0, 0, - 1)"
      zero_vec3]
  by (simp add: plane_eval)

section \<open>The minimum intersection distance\<close>

text \<open>
  C7 (amended). Of the four tests only the plane test has a minimum-distance guard: a
  candidate whose object-space ray parameter does not exceed 0.0001, the value of
  \<^verbatim>\<open>MIN_INTERSECT_DIST\<close>, is reported as no hit. (The source writes the literal; the macro
  itself is used nowhere.)
\<close>

theorem squareplane_minimum_distance:
  "\<not> MIN_INTERSECT_DIST < squareplane_t (toLocal g r) \<Longrightarrow>
     squareplaneIntersectionTest g r n = (MAX_INTERSECT_DIST, n)"
  by (simp add: squareplaneIntersectionTest_unfold squareplane_accepts_def
      MIN_INTERSECT_DIST_def)

theorem squareplane_minimum_distance_witness:
  "\<not> MIN_INTERSECT_DIST
        < squareplane_t (toLocal identity_geom (ray_at (0, 0, 1 / 65536) (0, 0, - 1)))
   \<and> squareplaneIntersectionTest identity_geom (ray_at (0, 0, 1 / 65536) (0, 0, - 1)) zero_vec3
       = (MAX_INTERSECT_DIST, zero_vec3)"
proof -
  have h: "\<not> MIN_INTERSECT_DIST
      < squareplane_t (toLocal identity_geom (ray_at (0, 0, 1 / 65536) (0, 0, - 1)))"
    by (simp add: plane_eval MIN_INTERSECT_DIST_def)
  show ?thesis
    using h squareplane_minimum_distance [OF h, of zero_vec3] by simp
qed

text \<open>
  The sphere, box and triangle tests have no such guard. A ray that starts \<open>1/65536\<close> above
  the triangle, a ray that starts \<open>1/65536\<close> inside a face of the box, and a ray that starts
  on the sphere all get a hit, at a distance that does not exceed \<^verbatim>\<open>MIN_INTERSECT_DIST\<close>.
\<close>

theorem hits_below_minimum_distance:
  "triIntersectionTest unit_tri (ray_at (1 / 4, 1 / 4, 1 / 65536) (0, 0, - 1)) zero_vec3
     = (Fin (1 / 65536), vec3 (Fin 0) (Fin 0) (Fin 1))
   \<and> boxIntersectionTest zero_vec3 identity_geom (ray_at (32767 / 65536, 0, 0) (1, 0, 0))
        zero_vec3
     = (Fin (1 / 65536), vec3 (Fin (- 1)) (Fin 0) (Fin 0))
   \<and> sphereIntersectionTest identity_geom (ray_at (0, 0, 1 / 2) (0, 0, 1)) zero_vec3
     = (Fin 0, vec3 (Fin 0) (Fin 0) (Fin 1))
   \<and> Fin (1 / 65536) \<le> MIN_INTERSECT_DIST"
proof -
  have t: "triIntersectionTest unit_tri (ray_at (1 / 4, 1 / 4, 1 / 65536) (0, 0, - 1)) zero_vec3
     = (Fin (1 / 65536), vec3 (Fin 0) (Fin 0) (Fin 1))"
    by (simp add: triIntersectionTest_def Let_def tri_eval)
  have b: "boxIntersectionTest zero_vec3 identity_geom (ray_at (32767 / 65536, 0, 0) (1, 0, 0))
        zero_vec3
     = (Fin (1 / 65536), vec3 (Fin (- 1)) (Fin 0) (Fin 0))"
    by (simp add: boxIntersectionTest_unfold box_eval sphere_eval)
  have s: "sphereIntersectionTest identity_geom (ray_at (0, 0, 1 / 2) (0, 0, 1)) zero_vec3
     = (Fin 0, vec3 (Fin 0) (Fin 0) (Fin 1))"
    by (simp add: sphereIntersectionTest_def sphere_eval)
  from t b s show ?thesis
    by (simp add: MIN_INTERSECT_DIST_def float_eval)
qed

section \<open>Triangle: acceptance\<close>

lemma triIntersectionTest_unfold:
  "triIntersectionTest tri r n =
    (if tri_t tri r < Fin 0 then (tri_t tri r, n)
     else if in_unit (tri_s1 tri r) \<and> in_unit (tri_s2 tri r) \<and> in_unit (tri_s3 tri r)
             \<and> feq (tri_sum tri r) (Fin 1)
       then (tri_t tri r, plane_normal tri)
       else (Fin (- 1), n))"
  by (simp add: triIntersectionTest_def tri_t_def tri_point_def tri_area_def tri_s1_def
      tri_s2_def tri_s3_def tri_sum_def in_unit_def Let_def)

text \<open>
  The test compares the sum of the three weights with \<^verbatim>\<open>1.0f\<close> by \<^verbatim>\<open>==\<close>. Whatever the
  weights are, a sum that does not compare equal to 1 makes the test return \<open>-1\<close> (or the
  negative ray parameter).
\<close>

lemma tri_needs_exact_sum:
  "\<not> feq (tri_sum tri r) (Fin 1) \<Longrightarrow>
     triIntersectionTest tri r n
       = (if tri_t tri r < Fin 0 then (tri_t tri r, n) else (Fin (- 1), n))"
  by (simp add: triIntersectionTest_unfold)

text \<open>
  C1. The specification asks for a comparison of the sum with 1 within a tolerance, and the
  source documents the return value \<open>-1\<close> as "no intersection". The source compares with
  \<^verbatim>\<open>==\<close>. The ray from \<open>(0.2f, 0.2f, 1)\<close> straight down, where \<open>0.2f\<close> is
  \<open>13421773 / 2\<^sup>2\<^sup>6\<close>, meets the unit triangle at the interior point \<open>(0.2f, 0.2f, 0)\<close>. The
  weights the test computes are \<open>5033165 / 2\<^sup>2\<^sup>3\<close>, \<open>6710887 / 2\<^sup>2\<^sup>5\<close> and \<open>6710887 / 2\<^sup>2\<^sup>5\<close>;
  each lies in \<open>[0,1]\<close>, and their sum, rounded after each addition, is \<open>1 + 2\<^sup>-\<^sup>2\<^sup>3\<close>, the
  successor of 1. A test with the tolerance \<open>2\<^sup>-\<^sup>2\<^sup>3\<close> accepts; the source returns \<open>-1\<close> and
  leaves the normal as it was.
\<close>

theorem tri_rejects_interior_point:
  "tri_t unit_tri (ray_at (13421773 / 67108864, 13421773 / 67108864, 1) (0, 0, - 1)) = Fin 1
   \<and> tri_point unit_tri (ray_at (13421773 / 67108864, 13421773 / 67108864, 1) (0, 0, - 1))
       = vec3 (Fin (13421773 / 67108864)) (Fin (13421773 / 67108864)) (Fin 0)
   \<and> tri_s1 unit_tri (ray_at (13421773 / 67108864, 13421773 / 67108864, 1) (0, 0, - 1))
       = Fin (5033165 / 8388608)
   \<and> tri_s2 unit_tri (ray_at (13421773 / 67108864, 13421773 / 67108864, 1) (0, 0, - 1))
       = Fin (6710887 / 33554432)
   \<and> tri_s3 unit_tri (ray_at (13421773 / 67108864, 13421773 / 67108864, 1) (0, 0, - 1))
       = Fin (6710887 / 33554432)
   \<and> tri_sum unit_tri (ray_at (13421773 / 67108864, 13421773 / 67108864, 1) (0, 0, - 1))
       = Fin (8388609 / 8388608)
   \<and> tri_accepts_within (Fin (1 / 8388608)) unit_tri
        (ray_at (13421773 / 67108864, 13421773 / 67108864, 1) (0, 0, - 1))
   \<and> triIntersectionTest unit_tri
        (ray_at (13421773 / 67108864, 13421773 / 67108864, 1) (0, 0, - 1)) zero_vec3
       = (Fin (- 1), zero_vec3)"
proof -
  let ?r = "ray_at (13421773 / 67108864, 13421773 / 67108864, 1) (0, 0, - 1)"
  have t: "tri_t unit_tri ?r = Fin 1"
    by (simp add: tri_eval)
  have P: "tri_point unit_tri ?r
      = vec3 (Fin (13421773 / 67108864)) (Fin (13421773 / 67108864)) (Fin 0)"
    by (simp add: tri_eval)
  have S: "tri_area unit_tri = Fin (1 / 2)"
    by (simp add: tri_eval)
  have s1: "tri_s1 unit_tri ?r = Fin (5033165 / 8388608)"
    unfolding tri_s1_def P S by (simp add: tri_eval)
  have s2: "tri_s2 unit_tri ?r = Fin (6710887 / 33554432)"
    unfolding tri_s2_def P S by (simp add: tri_eval)
  have s3: "tri_s3 unit_tri ?r = Fin (6710887 / 33554432)"
    unfolding tri_s3_def P S by (simp add: tri_eval)
  have sum: "tri_sum unit_tri ?r = Fin (8388609 / 8388608)"
    unfolding tri_sum_def s1 s2 s3 by (simp add: float_eval)
  have w: "tri_accepts_within (Fin (1 / 8388608)) unit_tri ?r"
    unfolding tri_accepts_within_def t s1 s2 s3 sum in_unit_def by (simp add: float_eval)
  have res: "triIntersectionTest unit_tri ?r zero_vec3 = (Fin (- 1), zero_vec3)"
    unfolding triIntersectionTest_unfold t s1 s2 s3 sum in_unit_def
    by (simp add: float_eval)
  from t P s1 s2 s3 sum w res show ?thesis
    by (simp only: simp_thms)
qed

text \<open>
  A point for which the rounded sum is exactly 1: the ray straight down onto
  \<open>(1/4, 1/4, 0)\<close> is accepted.
\<close>

lemma tri_accepts_quarter_point:
  "tri_sum unit_tri (ray_at (1 / 4, 1 / 4, 1) (0, 0, - 1)) = Fin 1
   \<and> triIntersectionTest unit_tri (ray_at (1 / 4, 1 / 4, 1) (0, 0, - 1)) zero_vec3
       = (Fin 1, vec3 (Fin 0) (Fin 0) (Fin 1))"
  by (simp add: triIntersectionTest_unfold tri_eval)

text \<open>
  The exact comparison also accepts a point outside the triangle: the ray straight down
  onto \<open>(1/2, -2\<^sup>-\<^sup>3\<^sup>0, 0)\<close>, below the edge from \<open>p0\<close> to \<open>p1\<close>, gets the weights \<open>1/2\<close>,
  \<open>1/2\<close> and \<open>2\<^sup>-\<^sup>3\<^sup>0\<close>, whose sum rounds to 1.
\<close>

lemma tri_accepts_exterior_point:
  "tri_point unit_tri (ray_at (1 / 2, - (1 / 1073741824), 1) (0, 0, - 1))
     = vec3 (Fin (1 / 2)) (Fin (- (1 / 1073741824))) (Fin 0)
   \<and> tri_sum unit_tri (ray_at (1 / 2, - (1 / 1073741824), 1) (0, 0, - 1)) = Fin 1
   \<and> triIntersectionTest unit_tri (ray_at (1 / 2, - (1 / 1073741824), 1) (0, 0, - 1)) zero_vec3
       = (Fin 1, vec3 (Fin 0) (Fin 0) (Fin 1))"
proof -
  let ?r = "ray_at (1 / 2, - (1 / 1073741824), 1) (0, 0, - 1)"
  have t: "tri_t unit_tri ?r = Fin 1"
    by (simp add: tri_eval)
  have P: "tri_point unit_tri ?r = vec3 (Fin (1 / 2)) (Fin (- (1 / 1073741824))) (Fin 0)"
    by (simp add: tri_eval)
  have S: "tri_area unit_tri = Fin (1 / 2)"
    by (simp add: tri_eval)
  have s1: "tri_s1 unit_tri ?r = Fin (1 / 2)"
    unfolding tri_s1_def P S by (simp add: tri_eval)
  have s2: "tri_s2 unit_tri ?r = Fin (1 / 2)"
    unfolding tri_s2_def P S by (simp add: tri_eval)
  have s3: "tri_s3 unit_tri ?r = Fin (1 / 1073741824)"
    unfolding tri_s3_def P S by (simp add: tri_eval)
  have sum: "tri_sum unit_tri ?r = Fin 1"
    unfolding tri_sum_def s1 s2 s3 by (simp add: float_eval)
  have res: "triIntersectionTest unit_tri ?r zero_vec3 = (Fin 1, vec3 (Fin 0) (Fin 0) (Fin 1))"
    unfolding triIntersectionTest_unfold t s1 s2 s3 sum in_unit_def
    by (simp add: float_eval unit_tri_def)
  from P sum res show ?thesis
    by (simp only: simp_thms)
qed

section \<open>Triangle: zero area\<close>

lemma div_zero_not_in_unit: "\<not> in_unit (x / Fin 0)" "\<not> in_unit (x / NZero)"
  by (cases x; simp add: in_unit_def float_eval)+

text \<open>
  C2 (amended). For a triangle whose area \<open>S\<close>, as the test computes it in single
  precision, compares equal to zero, and every ray, the triangle test reports no hit: it
  returns \<open>-1\<close>, or the negative ray parameter \<open>t\<close>, and leaves the normal as it was. There
  is no special case for such a triangle: the test divides by \<open>S\<close>, and the weights,
  infinite or NaN, fail the comparison with \<open>[0,1]\<close>.
\<close>

theorem tri_degenerate_no_hit:
  "feq (tri_area tri) (Fin 0) \<Longrightarrow>
     triIntersectionTest tri r n =
       (if tri_t tri r < Fin 0 then (tri_t tri r, n) else (Fin (- 1), n))"
proof -
  assume "feq (tri_area tri) (Fin 0)"
  then have "tri_area tri = Fin 0 \<or> tri_area tri = NZero"
    by (rule feq_zero)
  then have "\<not> in_unit (tri_s1 tri r)"
    by (auto simp: tri_s1_def div_zero_not_in_unit)
  then show ?thesis
    by (simp add: triIntersectionTest_unfold)
qed

text \<open>Three points on a line, with a ray towards their plane and a ray away from it.\<close>

theorem tri_degenerate_no_hit_witness:
  "feq (tri_area flat_tri) (Fin 0)
   \<and> triIntersectionTest flat_tri (ray_at (1 / 2, 1, 1) (0, 0, - 1)) zero_vec3
       = (Fin (- 1), zero_vec3)
   \<and> tri_t flat_tri (ray_at (1 / 2, 1, - 2) (0, 0, - 1)) < Fin 0
   \<and> triIntersectionTest flat_tri (ray_at (1 / 2, 1, - 2) (0, 0, - 1)) zero_vec3
       = (Fin (- 2), zero_vec3)"
proof -
  have h: "feq (tri_area flat_tri) (Fin 0)"
    by (simp add: tri_eval)
  have t: "tri_t flat_tri (ray_at (1 / 2, 1, 1) (0, 0, - 1)) = Fin 1"
    "tri_t flat_tri (ray_at (1 / 2, 1, - 2) (0, 0, - 1)) = Fin (- 2)"
    by (simp_all add: tri_eval)
  show ?thesis
    using h tri_degenerate_no_hit [OF h, of "ray_at (1 / 2, 1, 1) (0, 0, - 1)" zero_vec3]
      tri_degenerate_no_hit [OF h, of "ray_at (1 / 2, 1, - 2) (0, 0, - 1)" zero_vec3]
    by (simp add: t float_eval)
qed

text \<open>
  The claim as the specification words it fails twice. First, a triangle of zero area can
  get a hit. The points \<open>(41297976, 123893928, 0)\<close>, \<open>(2194, 6582, 0)\<close> and \<open>(129, 387, 0)\<close>
  lie on the line \<open>y = 3x\<close>, so the area of the triangle is zero. The test rounds the
  components of the two edges (\<open>41295782\<close> becomes \<open>41295784\<close>, for one) and then the two
  products of the cross product, which become \<open>5116281007112192\<close> and
  \<open>5116280470241280\<close>: their difference is \<open>2\<^sup>2\<^sup>9\<close>, and the test computes \<open>S = 2\<^sup>2\<^sup>8\<close>.
  For the ray straight down onto the first point it computes the weights 1, 0 and 0,
  returns \<open>t = 1\<close> and assigns the normal. Second, where the computed area is zero the
  division does take place: for the three collinear points of \<open>flat_tri\<close> a ray onto their
  line gets the weights \<open>0/0\<close>, which are NaN, and a ray beside the line gets an infinite
  first weight.
\<close>

theorem tri_degenerate_hit:
  "exact_area_is_zero collinear_tri
   \<and> tri_area collinear_tri = Fin 268435456
   \<and> tri_s1 collinear_tri (ray_at (41297976, 123893928, 1) (0, 0, - 1)) = Fin 1
   \<and> tri_s2 collinear_tri (ray_at (41297976, 123893928, 1) (0, 0, - 1)) = Fin 0
   \<and> tri_s3 collinear_tri (ray_at (41297976, 123893928, 1) (0, 0, - 1)) = Fin 0
   \<and> triIntersectionTest collinear_tri (ray_at (41297976, 123893928, 1) (0, 0, - 1)) zero_vec3
       = (Fin 1, vec3 (Fin 0) (Fin 0) (Fin 1))
   \<and> tri_area flat_tri = Fin 0
   \<and> tri_s1 flat_tri (ray_at (1 / 2, 0, 1) (0, 0, - 1)) = NaN
   \<and> tri_s2 flat_tri (ray_at (1 / 2, 0, 1) (0, 0, - 1)) = NaN
   \<and> tri_s3 flat_tri (ray_at (1 / 2, 0, 1) (0, 0, - 1)) = NaN
   \<and> tri_s1 flat_tri (ray_at (1 / 2, 1, 1) (0, 0, - 1)) = PInf"
proof -
  let ?r = "ray_at (41297976, 123893928, 1) (0, 0, - 1)"
  have z: "exact_area_is_zero collinear_tri"
    by (simp add: exact_area_is_zero_def collinear_tri_def Let_def)
  have S: "tri_area collinear_tri = Fin 268435456"
    by (simp add: tri_eval)
  have t: "tri_t collinear_tri ?r = Fin 1"
    by (simp add: tri_eval)
  have P: "tri_point collinear_tri ?r = vec3 (Fin 41297976) (Fin 123893928) (Fin 0)"
    by (simp add: tri_eval)
  have s1: "tri_s1 collinear_tri ?r = Fin 1"
    unfolding tri_s1_def P S by (simp add: tri_eval)
  have s2: "tri_s2 collinear_tri ?r = Fin 0"
    unfolding tri_s2_def P S by (simp add: tri_eval)
  have s3: "tri_s3 collinear_tri ?r = Fin 0"
    unfolding tri_s3_def P S by (simp add: tri_eval)
  have res: "triIntersectionTest collinear_tri ?r zero_vec3
      = (Fin 1, vec3 (Fin 0) (Fin 0) (Fin 1))"
    unfolding triIntersectionTest_unfold t s1 s2 s3 tri_sum_def in_unit_def
    by (simp add: float_eval collinear_tri_def)
  have f: "tri_area flat_tri = Fin 0"
    "tri_s1 flat_tri (ray_at (1 / 2, 0, 1) (0, 0, - 1)) = NaN"
    "tri_s2 flat_tri (ray_at (1 / 2, 0, 1) (0, 0, - 1)) = NaN"
    "tri_s3 flat_tri (ray_at (1 / 2, 0, 1) (0, 0, - 1)) = NaN"
    "tri_s1 flat_tri (ray_at (1 / 2, 1, 1) (0, 0, - 1)) = PInf"
    by (simp_all add: tri_eval)
  from z S s1 s2 s3 res f show ?thesis
    by (simp only: simp_thms)
qed

section \<open>How the absence of a hit is signalled\<close>








text \<open>
  A ray parallel to the plane of the triangle, from a point above the plane: the test
  divides \<open>-1\<close> by 0, the ray parameter is \<open>-\<infinity>\<close>, and that is what the test returns.
\<close>

lemma tri_returns_minus_infinity:
  "tri_t unit_tri (ray_at (1 / 4, 1 / 4, 1) (1, 0, 0)) = NInf
   \<and> triIntersectionTest unit_tri (ray_at (1 / 4, 1 / 4, 1) (1, 0, 0)) zero_vec3
     = (NInf, zero_vec3)"
  by (simp add: triIntersectionTest_def Let_def tri_eval)

section \<open>The normal when there is no hit\<close>




section \<open>Object space and world space\<close>

text \<open>
  C6 (amended). The sphere, box and plane tests transform the world-space ray into object
  space with the inverse transform of the instance, solve there, and on a hit map the
  object-space point to world space with the transform and the object-space normal with
  the inverse transpose. The triangle test receives no instance and applies no transform:
  on a hit it returns the parameter \<open>t\<close> of the ray as given and the stored plane normal.
\<close>

theorem tests_through_object_space:
  "sphereIntersectionTest g r n =
     (case sphere_canonical (toLocal g r) of
        None \<Rightarrow> (MAX_INTERSECT_DIST, n) | Some (p, nl) \<Rightarrow> toWorld g r p nl)
   \<and> boxIntersectionTest dflt g r n =
     (case box_canonical dflt (toLocal g r) of
        None \<Rightarrow> (MAX_INTERSECT_DIST, n) | Some (p, nl) \<Rightarrow> toWorld g r p nl)
   \<and> squareplaneIntersectionTest g r n =
     (case squareplane_canonical (toLocal g r) of
        None \<Rightarrow> (MAX_INTERSECT_DIST, n) | Some (p, nl) \<Rightarrow> toWorld g r p nl)
   \<and> (\<not> tri_miss tri r \<longrightarrow> triIntersectionTest tri r n = (tri_t tri r, plane_normal tri))"
proof -
  have s: "sphereIntersectionTest g r n =
     (case sphere_canonical (toLocal g r) of
        None \<Rightarrow> (MAX_INTERSECT_DIST, n) | Some (p, nl) \<Rightarrow> toWorld g r p nl)"
    by (simp add: sphereIntersectionTest_unfold sphere_canonical_def Let_def)
  have b: "boxIntersectionTest dflt g r n =
     (case box_canonical dflt (toLocal g r) of
        None \<Rightarrow> (MAX_INTERSECT_DIST, n) | Some (p, nl) \<Rightarrow> toWorld g r p nl)"
    by (simp add: boxIntersectionTest_unfold box_canonical_def Let_def)
  have p: "squareplaneIntersectionTest g r n =
     (case squareplane_canonical (toLocal g r) of
        None \<Rightarrow> (MAX_INTERSECT_DIST, n) | Some (p, nl) \<Rightarrow> toWorld g r p nl)"
    by (simp add: squareplaneIntersectionTest_unfold squareplane_canonical_def)
  have t: "\<not> tri_miss tri r \<longrightarrow> triIntersectionTest tri r n = (tri_t tri r, plane_normal tri)"
    by (auto simp: tri_miss_def triIntersectionTest_unfold)
  from s b p t show ?thesis
    by blast
qed

text \<open>
  The sphere of the instance translated by \<open>(0,0,1)\<close>, hit from \<open>(0,0,-1)\<close> in direction
  \<open>+z\<close>: the object-space hit point is \<open>(0,0,-1/2)\<close>, the world-space distance is 1.5. The
  unit triangle, hit from \<open>(1/4,1/4,2)\<close> straight down: \<open>t = 2\<close>.
\<close>

theorem tests_through_object_space_witness:
  "sphere_canonical (toLocal lifted_geom (ray_at (0, 0, - 1) (0, 0, 1)))
     = Some (vec3 (Fin 0) (Fin 0) (Fin (- (1 / 2))), vec3 (Fin 0) (Fin 0) (Fin (- (1 / 2))))
   \<and> sphereIntersectionTest lifted_geom (ray_at (0, 0, - 1) (0, 0, 1)) zero_vec3
     = (Fin (3 / 2), vec3 (Fin 0) (Fin 0) (Fin (- 1)))
   \<and> \<not> tri_miss unit_tri (ray_at (1 / 4, 1 / 4, 2) (0, 0, - 1))
   \<and> triIntersectionTest unit_tri (ray_at (1 / 4, 1 / 4, 2) (0, 0, - 1)) zero_vec3
     = (Fin 2, vec3 (Fin 0) (Fin 0) (Fin 1))"
proof -
  have c: "sphere_canonical (toLocal lifted_geom (ray_at (0, 0, - 1) (0, 0, 1)))
     = Some (vec3 (Fin 0) (Fin 0) (Fin (- (1 / 2))), vec3 (Fin 0) (Fin 0) (Fin (- (1 / 2))))"
    by (simp add: sphere_canonical_def lifted_geom_def sphere_eval)
  have w: "toWorld lifted_geom (ray_at (0, 0, - 1) (0, 0, 1))
      (vec3 (Fin 0) (Fin 0) (Fin (- (1 / 2)))) (vec3 (Fin 0) (Fin 0) (Fin (- (1 / 2))))
     = (Fin (3 / 2), vec3 (Fin 0) (Fin 0) (Fin (- 1)))"
    by (simp add: lifted_geom_def sphere_eval)
  have m: "\<not> tri_miss unit_tri (ray_at (1 / 4, 1 / 4, 2) (0, 0, - 1))"
    by (simp add: tri_miss_def tri_eval)
  have t: "tri_t unit_tri (ray_at (1 / 4, 1 / 4, 2) (0, 0, - 1)) = Fin 2"
    "plane_normal unit_tri = vec3 (Fin 0) (Fin 0) (Fin 1)"
    by (simp_all add: tri_eval)
  show ?thesis
    using tests_through_object_space [of lifted_geom "ray_at (0, 0, - 1) (0, 0, 1)" zero_vec3
        zero_vec3 unit_tri]
      tests_through_object_space [of identity_geom "ray_at (1 / 4, 1 / 4, 2) (0, 0, - 1)"
        zero_vec3 zero_vec3 unit_tri]
    by (simp add: c w m t)
qed

text \<open>
  The claim as the specification words it fails for the triangle test. For the unit
  triangle of an instance translated by \<open>(0,0,1)\<close> and the ray from \<open>(1/4,1/4,2)\<close> straight
  down, a test that goes through the object space of the instance finds the hit at
  distance 1; the source, which knows of no instance, returns 2.
\<close>

theorem tri_ignores_instance_transform:
  "tri_via_instance lifted_geom unit_tri (ray_at (1 / 4, 1 / 4, 2) (0, 0, - 1)) zero_vec3
     = (Fin 1, vec3 (Fin 0) (Fin 0) (Fin 1))
   \<and> triIntersectionTest unit_tri (ray_at (1 / 4, 1 / 4, 2) (0, 0, - 1)) zero_vec3
     = (Fin 2, vec3 (Fin 0) (Fin 0) (Fin 1))"
  by (simp add: tri_via_instance_def tri_miss_def triIntersectionTest_unfold lifted_geom_def
      toLocal_def toWorld_def tri_eval)

end
